theory Spec2Isabelle
  imports Complex_Main
begin


section \<open>Data model\<close>

text \<open>
  JavaScript numbers are modelled as mathematical reals: a comparison, a sum, a product
  and \<open>Math.sqrt\<close> are the exact operations, so IEEE rounding is outside this model.

  \<open>HandLandmark\<close> is the interface \<open>{x, y, z}\<close> of the hand-tracking hook; a 2D point
  \<open>{x, y}\<close> (palm position, rotation and position deltas, target accumulators) is
  \<open>Point2\<close>. The fields are prefixed because \<open>x\<close> and \<open>y\<close> cannot be constants.
\<close>

record HandLandmark =
  lx :: real
  ly :: real
  lz :: real

record Point2 =
  px :: real
  py :: real

record GestureState =
  isZoomIn :: bool
  isZoomOut :: bool
  isOpenHand :: bool
  isFist :: bool
  isPeace :: bool
  isReset :: bool
  palmPosition :: "Point2 option"
  rotation :: Point2
  position :: Point2

text \<open>
  Reading a field of \<open>undefined\<close> throws a \<open>TypeError\<close> in JavaScript; this is the only
  failure of the classifier (a landmark array that is too short).
\<close>

datatype error = TypeError

section \<open>Gesture classifier (hook \<open>useHandTracking\<close>)\<close>

definition isFingerExtended ::
  "HandLandmark \<Rightarrow> HandLandmark \<Rightarrow> HandLandmark \<Rightarrow> HandLandmark \<Rightarrow> bool" where
  "isFingerExtended tip pip mcp wrist =
     (let tipToWrist = sqrt ((lx tip - lx wrist) ^ 2 + (ly tip - ly wrist) ^ 2);
          pipToWrist = sqrt ((lx pip - lx wrist) ^ 2 + (ly pip - ly wrist) ^ 2);
          mcpToWrist = sqrt ((lx mcp - lx wrist) ^ 2 + (ly mcp - ly wrist) ^ 2)
      in tipToWrist > pipToWrist * 0.95 \<and> tipToWrist > mcpToWrist)"

definition isThumbExtended ::
  "HandLandmark \<Rightarrow> HandLandmark \<Rightarrow> HandLandmark \<Rightarrow> HandLandmark \<Rightarrow> HandLandmark \<Rightarrow> bool" where
  "isThumbExtended thumbTip thumbIp thumbMcp wrist indexMcp =
     (let thumbToIndexMcp =
            sqrt ((lx thumbTip - lx indexMcp) ^ 2 + (ly thumbTip - ly indexMcp) ^ 2)
      in thumbToIndexMcp > 0.12)"

text \<open>
  \<open>calculateGesture\<close> reads the indices 0, 2..6, 8..10, 12..14, 16..18 and 20 of the
  landmark array and then fields of what it read. With fewer than 21 entries one of
  \<open>handLandmarks[17]\<close>, \<open>[18]\<close>, \<open>[20]\<close> is \<open>undefined\<close> and the field access throws
  before the assignment to \<open>prevPalmPosition.current\<close>. The ref
  \<open>prevPalmPosition\<close> is threaded: read as the second argument, returned updated.
\<close>

definition calculateGesture ::
  "HandLandmark list \<Rightarrow> Point2 option \<Rightarrow> error + (GestureState \<times> Point2 option)" where
  "calculateGesture handLandmarks prevPalmPosition =
     (if length handLandmarks < 21 then Inl TypeError
      else
        let wrist = handLandmarks ! 0;
            thumbTip = handLandmarks ! 4;
            thumbIp = handLandmarks ! 3;
            thumbMcp = handLandmarks ! 2;
            indexTip = handLandmarks ! 8;
            indexPip = handLandmarks ! 6;
            indexMcp = handLandmarks ! 5;
            middleTip = handLandmarks ! 12;
            middlePip = handLandmarks ! 10;
            middleMcp = handLandmarks ! 9;
            ringTip = handLandmarks ! 16;
            ringPip = handLandmarks ! 14;
            ringMcp = handLandmarks ! 13;
            pinkyTip = handLandmarks ! 20;
            pinkyPip = handLandmarks ! 18;
            pinkyMcp = handLandmarks ! 17;
            palmX = (lx wrist + lx indexMcp + lx middleMcp + lx pinkyMcp) / 4;
            palmY = (ly wrist + ly indexMcp + ly middleMcp + ly pinkyMcp) / 4;
            palm = \<lparr>px = palmX, py = palmY\<rparr>;
            thumbExtended = isThumbExtended thumbTip thumbIp thumbMcp wrist indexMcp;
            indexExtended = isFingerExtended indexTip indexPip indexMcp wrist;
            middleExtended = isFingerExtended middleTip middlePip middleMcp wrist;
            ringExtended = isFingerExtended ringTip ringPip ringMcp wrist;
            pinkyExtended = isFingerExtended pinkyTip pinkyPip pinkyMcp wrist;
            extendedCount =
              length (filter id [indexExtended, middleExtended, ringExtended, pinkyExtended]);
            zoomIn = (thumbExtended \<and> indexExtended \<and> \<not> middleExtended
                        \<and> \<not> ringExtended \<and> \<not> pinkyExtended);
            zoomOut = (\<not> thumbExtended \<and> indexExtended \<and> \<not> middleExtended
                        \<and> \<not> ringExtended \<and> \<not> pinkyExtended);
            openHand = (extendedCount \<ge> 4 \<and> thumbExtended);
            fist = (extendedCount = 0 \<and> \<not> thumbExtended);
            peace = (indexExtended \<and> middleExtended \<and> \<not> ringExtended
                        \<and> \<not> pinkyExtended \<and> \<not> thumbExtended);
            reset = (thumbExtended \<and> pinkyExtended \<and> \<not> indexExtended
                        \<and> \<not> middleExtended \<and> \<not> ringExtended);
            rot = (case prevPalmPosition of
                     Some prev \<Rightarrow>
                       if openHand then
                         let deltaX = (px palm - px prev) * 3;
                             deltaY = (py palm - py prev) * 3
                         in \<lparr>px = deltaY, py = - deltaX\<rparr>
                       else \<lparr>px = 0, py = 0\<rparr>
                   | None \<Rightarrow> \<lparr>px = 0, py = 0\<rparr>);
            pos = (case prevPalmPosition of
                     Some prev \<Rightarrow>
                       if peace then
                         let deltaX = (px palm - px prev) * 5;
                             deltaY = (py palm - py prev) * 5
                         in \<lparr>px = - deltaX, py = - deltaY\<rparr>
                       else \<lparr>px = 0, py = 0\<rparr>
                   | None \<Rightarrow> \<lparr>px = 0, py = 0\<rparr>)
        in Inr (\<lparr>isZoomIn = zoomIn, isZoomOut = zoomOut, isOpenHand = openHand,
                  isFist = fist, isPeace = peace, isReset = reset,
                  palmPosition = Some palm, rotation = rot, position = pos\<rparr>,
                Some palm))"

text \<open>
  The state of the hook that \<open>processResults\<close> writes: the React states \<open>landmarks\<close>
  and \<open>gesture\<close> and the ref \<open>prevPalmPosition\<close>. Drawing on the canvas is an effect
  outside the model; \<open>hasCtx\<close> says that \<open>canvasRef.current\<close> and its 2D context both
  exist, which is what the two outer guards test. The detector's result is the list of
  detected hands, or nothing.
\<close>

record HookState =
  landmarks :: "HandLandmark list option"
  gesture :: GestureState
  prevPalmPosition :: "Point2 option"

definition noHandGesture :: GestureState where
  "noHandGesture =
     \<lparr>isZoomIn = False, isZoomOut = False, isOpenHand = False, isFist = False,
      isPeace = False, isReset = False, palmPosition = None,
      rotation = \<lparr>px = 0, py = 0\<rparr>, position = \<lparr>px = 0, py = 0\<rparr>\<rparr>"

definition processResults ::
  "bool \<Rightarrow> HandLandmark list list option \<Rightarrow> HookState \<Rightarrow> error + HookState" where
  "processResults hasCtx results st =
     (if \<not> hasCtx then Inr st
      else case results of
        Some (handLandmarks # _) \<Rightarrow>
          (case calculateGesture handLandmarks (prevPalmPosition st) of
             Inl e \<Rightarrow> Inl e
           | Inr (gestureState, prev') \<Rightarrow>
               Inr (st\<lparr>landmarks := Some handLandmarks, gesture := gestureState,
                       prevPalmPosition := prev'\<rparr>))
      | _ \<Rightarrow> Inr (st\<lparr>landmarks := None, gesture := noHandGesture\<rparr>))"

section \<open>Interaction state machine (frame callbacks of \<open>Scene3D\<close>)\<close>

text \<open>
  Modelled from the spec: \<open>THREE.MathUtils.lerp\<close> belongs to the three.js library and is
  not under the sources; the specification gives it as \<open>lerp(a,b,t) = a + (b - a) * t\<close>.
\<close>

definition lerp :: "real \<Rightarrow> real \<Rightarrow> real \<Rightarrow> real" where
  "lerp a b t = a + (b - a) * t"

text \<open>
  Of a three.js object the frame callbacks touch \<open>rotation.x\<close>, \<open>rotation.y\<close>,
  \<open>position.x\<close>, \<open>position.y\<close> and the scale: \<open>scale.setScalar v\<close> writes \<open>v\<close> to
  all three components and only \<open>scale.x\<close> is read back, so one number stands for it.
\<close>

record Object3D =
  obj_rotation :: Point2
  obj_position :: Point2
  obj_scale :: real

text \<open>
  Every controllable component owns the refs \<open>targetRotation\<close>, \<open>targetPosition\<close>,
  \<open>targetScale\<close>, \<open>isFrozen\<close> and \<open>groupRef\<close> (\<open>None\<close> while the object is not
  mounted). \<open>SolarSystem\<close> has the ref \<open>currentScale\<close> in addition,
  \<open>InteractiveModel\<close> the ref \<open>meshRef\<close>.
\<close>

record InteractionState =
  targetRotation :: Point2
  targetPosition :: Point2
  targetScale :: real
  isFrozen :: bool

record ModelRefs = InteractionState +
  groupRef :: "Object3D option"

record SolarRefs = ModelRefs +
  currentScale :: real

record InteractiveRefs = ModelRefs +
  meshRef :: "Object3D option"

text \<open>
  The four frame callbacks (\<open>SolarSystem\<close>, \<open>CarModel\<close>, \<open>ChairModel\<close>,
  \<open>InteractiveModel\<close>) repeat the same statements between their guard and the
  smoothing, up to the lower bound of the scale (0.2 for the solar system, 0.3 for the
  others). Each of these statements is one function on the refs, in the order of the
  source:

  \<^verbatim>\<open>if (gesture.isFist && !isFrozen.current) isFrozen.current = true;\<close>
\<close>

definition freezeOnFist ::
  "GestureState \<Rightarrow> 'a InteractionState_scheme \<Rightarrow> 'a InteractionState_scheme" where
  "freezeOnFist g s = (if isFist g \<and> \<not> isFrozen s then s\<lparr>isFrozen := True\<rparr> else s)"

text \<open>
  \<^verbatim>\<open>if (!gesture.isFist && (gesture.isOpenHand || gesture.isZoomIn || gesture.isZoomOut
      || gesture.isPeace || gesture.isReset)) { isFrozen.current = false; }\<close>
\<close>

definition unfreezeOnGesture ::
  "GestureState \<Rightarrow> 'a InteractionState_scheme \<Rightarrow> 'a InteractionState_scheme" where
  "unfreezeOnGesture g s =
     (if \<not> isFist g \<and> (isOpenHand g \<or> isZoomIn g \<or> isZoomOut g \<or> isPeace g \<or> isReset g)
      then s\<lparr>isFrozen := False\<rparr> else s)"

text \<open>
  \<^verbatim>\<open>if (gesture.isReset) { targetRotation.current = { x: 0, y: 0 };
      targetPosition.current = { x: 0, y: 0 }; targetScale.current = 1;
      isFrozen.current = false; }\<close>
\<close>

definition resetTargets ::
  "GestureState \<Rightarrow> 'a InteractionState_scheme \<Rightarrow> 'a InteractionState_scheme" where
  "resetTargets g s =
     (if isReset g
      then s\<lparr>targetRotation := \<lparr>px = 0, py = 0\<rparr>,
             targetPosition := \<lparr>px = 0, py = 0\<rparr>,
             targetScale := 1,
             isFrozen := False\<rparr>
      else s)"

text \<open>
  \<^verbatim>\<open>if (gesture.isOpenHand) { targetRotation.current.x += gesture.rotation.x;
      targetRotation.current.y += gesture.rotation.y; }\<close>
\<close>

definition addRotation ::
  "GestureState \<Rightarrow> 'a InteractionState_scheme \<Rightarrow> 'a InteractionState_scheme" where
  "addRotation g s =
     (if isOpenHand g
      then s\<lparr>targetRotation :=
               \<lparr>px = px (targetRotation s) + px (rotation g),
                py = py (targetRotation s) + py (rotation g)\<rparr>\<rparr>
      else s)"

text \<open>
  \<^verbatim>\<open>if (gesture.isPeace) { targetPosition.current.x += gesture.position.x;
      targetPosition.current.y += gesture.position.y;
      targetPosition.current.x = Math.max(-3, Math.min(3, targetPosition.current.x));
      targetPosition.current.y = Math.max(-2, Math.min(2, targetPosition.current.y)); }\<close>
\<close>

definition movePosition ::
  "GestureState \<Rightarrow> 'a InteractionState_scheme \<Rightarrow> 'a InteractionState_scheme" where
  "movePosition g s =
     (if isPeace g
      then s\<lparr>targetPosition :=
               \<lparr>px = max (- 3) (min 3 (px (targetPosition s) + px (position g))),
                py = max (- 2) (min 2 (py (targetPosition s) + py (position g)))\<rparr>\<rparr>
      else s)"

text \<open>
  \<^verbatim>\<open>if (gesture.isZoomIn) targetScale.current = Math.min(3, targetScale.current + 0.02);\<close>
\<close>

definition zoomIn ::
  "GestureState \<Rightarrow> 'a InteractionState_scheme \<Rightarrow> 'a InteractionState_scheme" where
  "zoomIn g s =
     (if isZoomIn g then s\<lparr>targetScale := min 3 (targetScale s + 0.02)\<rparr> else s)"

text \<open>
  \<^verbatim>\<open>if (gesture.isZoomOut) targetScale.current = Math.max(0.2, targetScale.current - 0.02);\<close>
  with 0.3 in place of 0.2 in the three other components.
\<close>

definition zoomOut ::
  "real \<Rightarrow> GestureState \<Rightarrow> 'a InteractionState_scheme \<Rightarrow> 'a InteractionState_scheme" where
  "zoomOut scaleMin g s =
     (if isZoomOut g then s\<lparr>targetScale := max scaleMin (targetScale s - 0.02)\<rparr> else s)"

text \<open>
  The block as a whole: the two freeze statements and the reset, then, under
  \<^verbatim>\<open>if (!isFrozen.current)\<close>, the four target updates.
\<close>

definition updateTargets ::
  "real \<Rightarrow> GestureState \<Rightarrow> 'a InteractionState_scheme \<Rightarrow> 'a InteractionState_scheme" where
  "updateTargets scaleMin g s =
     (let s' = resetTargets g (unfreezeOnGesture g (freezeOnFist g s))
      in if \<not> isFrozen s'
         then zoomOut scaleMin g (zoomIn g (movePosition g (addRotation g s')))
         else s')"

definition SolarSystem_useFrame :: "GestureState \<Rightarrow> SolarRefs \<Rightarrow> SolarRefs" where
  "SolarSystem_useFrame g r =
     (case groupRef r of
        None \<Rightarrow> r
      | Some grp \<Rightarrow>
          let s = updateTargets 0.2 g r;
              rot = \<lparr>px = lerp (px (obj_rotation grp)) (px (targetRotation s) + 0.2) 0.15,
                     py = lerp (py (obj_rotation grp)) (py (targetRotation s)) 0.15\<rparr>;
              pos = \<lparr>px = lerp (px (obj_position grp)) (px (targetPosition s)) 0.15,
                     py = lerp (py (obj_position grp)) (py (targetPosition s)) 0.15\<rparr>;
              prevScale = obj_scale grp;
              newScale = lerp prevScale (targetScale s) 0.1
          in s\<lparr>groupRef := Some (grp\<lparr>obj_rotation := rot, obj_position := pos,
                                       obj_scale := newScale\<rparr>),
               currentScale := newScale * 0.35\<rparr>)"

definition CarModel_useFrame :: "GestureState \<Rightarrow> ModelRefs \<Rightarrow> ModelRefs" where
  "CarModel_useFrame g r =
     (case groupRef r of
        None \<Rightarrow> r
      | Some grp \<Rightarrow>
          let s = updateTargets 0.3 g r;
              rot = \<lparr>px = lerp (px (obj_rotation grp)) (px (targetRotation s)) 0.15,
                     py = lerp (py (obj_rotation grp)) (py (targetRotation s)) 0.15\<rparr>;
              pos = \<lparr>px = lerp (px (obj_position grp)) (px (targetPosition s)) 0.15,
                     py = lerp (py (obj_position grp)) (py (targetPosition s)) 0.15\<rparr>;
              curScale = obj_scale grp;
              newScale = lerp curScale (targetScale s) 0.1
          in s\<lparr>groupRef := Some (grp\<lparr>obj_rotation := rot, obj_position := pos,
                                       obj_scale := newScale\<rparr>)\<rparr>)"

definition ChairModel_useFrame :: "GestureState \<Rightarrow> ModelRefs \<Rightarrow> ModelRefs" where
  "ChairModel_useFrame g r =
     (case groupRef r of
        None \<Rightarrow> r
      | Some grp \<Rightarrow>
          let s = updateTargets 0.3 g r;
              rot = \<lparr>px = lerp (px (obj_rotation grp)) (px (targetRotation s)) 0.15,
                     py = lerp (py (obj_rotation grp)) (py (targetRotation s)) 0.15\<rparr>;
              pos = \<lparr>px = lerp (px (obj_position grp)) (px (targetPosition s)) 0.15,
                     py = lerp (py (obj_position grp)) (py (targetPosition s)) 0.15\<rparr>;
              curScale = obj_scale grp;
              newScale = lerp curScale (targetScale s) 0.1
          in s\<lparr>groupRef := Some (grp\<lparr>obj_rotation := rot, obj_position := pos,
                                       obj_scale := newScale\<rparr>)\<rparr>)"

text \<open>
  \<open>InteractiveModel\<close> rotates and scales the mesh and moves the group around it; its
  guard needs both refs.
\<close>

definition InteractiveModel_useFrame ::
  "GestureState \<Rightarrow> InteractiveRefs \<Rightarrow> InteractiveRefs" where
  "InteractiveModel_useFrame g r =
     (case (meshRef r, groupRef r) of
        (Some mesh, Some grp) \<Rightarrow>
          let s = updateTargets 0.3 g r;
              rot = \<lparr>px = lerp (px (obj_rotation mesh)) (px (targetRotation s)) 0.15,
                     py = lerp (py (obj_rotation mesh)) (py (targetRotation s)) 0.15\<rparr>;
              pos = \<lparr>px = lerp (px (obj_position grp)) (px (targetPosition s)) 0.15,
                     py = lerp (py (obj_position grp)) (py (targetPosition s)) 0.15\<rparr>;
              newScale = lerp (obj_scale mesh) (targetScale s) 0.1
          in s\<lparr>groupRef := Some (grp\<lparr>obj_position := pos\<rparr>),
               meshRef := Some (mesh\<lparr>obj_rotation := rot, obj_scale := newScale\<rparr>)\<rparr>
      | _ \<Rightarrow> r)"

section \<open>The specification's reading of the classifier\<close>

text \<open>
  These definitions follow the words of the specification, not the code; the theorems
  below compare the code with them. The specification's distance is the Euclidean
  distance in the frame (the \<open>x\<close> and \<open>y\<close> of a landmark). A non-thumb finger with
  tip, proximal joint and base joint at the given indices is extended when its tip is
  farther from the wrist (index 0) than 0.95 times the proximal joint and farther than
  the base joint. The palm reference point is the mean of the wrist and the four base
  joints (indices 5, 9, 13, 17).
\<close>

definition spec_distance :: "HandLandmark \<Rightarrow> HandLandmark \<Rightarrow> real" where
  "spec_distance a b = sqrt ((lx a - lx b) ^ 2 + (ly a - ly b) ^ 2)"

definition spec_finger_extended :: "HandLandmark list \<Rightarrow> nat \<Rightarrow> nat \<Rightarrow> nat \<Rightarrow> bool" where
  "spec_finger_extended hl tip pip mcp =
     (spec_distance (hl ! tip) (hl ! 0) > 0.95 * spec_distance (hl ! pip) (hl ! 0)
      \<and> spec_distance (hl ! tip) (hl ! 0) > spec_distance (hl ! mcp) (hl ! 0))"

definition spec_thumb_extended :: "HandLandmark list \<Rightarrow> bool" where
  "spec_thumb_extended hl = (spec_distance (hl ! 4) (hl ! 5) > 0.12)"

definition spec_palm :: "HandLandmark list \<Rightarrow> Point2" where
  "spec_palm hl =
     \<lparr>px = (lx (hl ! 0) + lx (hl ! 5) + lx (hl ! 9) + lx (hl ! 13) + lx (hl ! 17)) / 5,
      py = (ly (hl ! 0) + ly (hl ! 5) + ly (hl ! 9) + ly (hl ! 13) + ly (hl ! 17)) / 5\<rparr>"

text \<open>The number of flags of a gesture that are set.\<close>

definition activeFlags :: "GestureState \<Rightarrow> nat" where
  "activeFlags g =
     length (filter id [isZoomIn g, isZoomOut g, isOpenHand g, isFist g, isPeace g, isReset g])"

section \<open>Concrete frames\<close>

definition lm :: "real \<Rightarrow> real \<Rightarrow> HandLandmark" where
  "lm a b = \<lparr>lx = a, ly = b, lz = 0\<rparr>"

text \<open>
  An open hand held upright: the wrist at the bottom of the frame, the four fingers
  straight, the thumb spread to the side.
\<close>

definition openPalmFrame :: "HandLandmark list" where
  "openPalmFrame =
     [lm 0.45 0.72,
      lm 0.36 0.66, lm 0.28 0.58, lm 0.20 0.51, lm 0.15 0.45,
      lm 0.35 0.32, lm 0.35 0.22, lm 0.35 0.15, lm 0.35 0.08,
      lm 0.45 0.32, lm 0.45 0.22, lm 0.45 0.14, lm 0.45 0.06,
      lm 0.50 0.32, lm 0.50 0.22, lm 0.50 0.15, lm 0.50 0.08,
      lm 0.55 0.32, lm 0.55 0.24, lm 0.55 0.18, lm 0.55 0.12]"

definition fistHookState :: HookState where
  "fistHookState =
     \<lparr>landmarks = Some openPalmFrame,
      gesture = noHandGesture\<lparr>isFist := True, palmPosition := Some \<lparr>px = 0.4, py = 0.4\<rparr>\<rparr>,
      prevPalmPosition = Some \<lparr>px = 0.4, py = 0.4\<rparr>\<rparr>"

section \<open>Ranges and smoothing as the specification states them\<close>

definition inPositionRange :: "'a InteractionState_scheme \<Rightarrow> bool" where
  "inPositionRange s =
     (- 3 \<le> px (targetPosition s) \<and> px (targetPosition s) \<le> 3
      \<and> - 2 \<le> py (targetPosition s) \<and> py (targetPosition s) \<le> 2)"

definition inScaleRange :: "real \<Rightarrow> real \<Rightarrow> 'a InteractionState_scheme \<Rightarrow> bool" where
  "inScaleRange scaleMin scaleMax s = (scaleMin \<le> targetScale s \<and> targetScale s \<le> scaleMax)"

text \<open>
  The scale target after one frame, following the specification: reset sets it to 1,
  then, unless the machine is frozen, zoom-in raises it by 0.02 up to \<open>scaleMax\<close> and
  zoom-out lowers it by 0.02 down to \<open>scaleMin\<close>; nothing else changes it.
\<close>

definition spec_targetScale :: "real \<Rightarrow> real \<Rightarrow> GestureState \<Rightarrow> bool \<Rightarrow> real \<Rightarrow> real" where
  "spec_targetScale scaleMin scaleMax g frozen t =
     (let t0 = (if isReset g then 1 else t);
          t1 = (if isZoomIn g \<and> \<not> frozen then min scaleMax (t0 + 0.02) else t0)
      in if isZoomOut g \<and> \<not> frozen then max scaleMin (t1 - 0.02) else t1)"

text \<open>
  One smoothing step of a rendered value: the new value is the interpolation from the
  old one toward the target, and it is not farther from the target than the old one.
\<close>

definition smoothed :: "real \<Rightarrow> real \<Rightarrow> real \<Rightarrow> real \<Rightarrow> bool" where
  "smoothed factor target old new =
     (new = lerp old target factor \<and> \<bar>new - target\<bar> \<le> \<bar>old - target\<bar>)"

section \<open>Concrete gestures and component states\<close>

definition fistGesture :: GestureState where
  "fistGesture = noHandGesture\<lparr>isFist := True\<rparr>"

definition peaceGesture :: GestureState where
  "peaceGesture = noHandGesture\<lparr>isPeace := True, position := \<lparr>px = 10, py = 10\<rparr>\<rparr>"

definition zoomInGesture :: GestureState where
  "zoomInGesture = noHandGesture\<lparr>isZoomIn := True\<rparr>"

definition fistOpenGesture :: GestureState where
  "fistOpenGesture = noHandGesture\<lparr>isFist := True, isOpenHand := True\<rparr>"

definition resetFistGesture :: GestureState where
  "resetFistGesture = noHandGesture\<lparr>isReset := True, isFist := True\<rparr>"

definition resetZoomInGesture :: GestureState where
  "resetZoomInGesture = noHandGesture\<lparr>isReset := True, isZoomIn := True\<rparr>"

definition restObject :: Object3D where
  "restObject =
     \<lparr>obj_rotation = \<lparr>px = 0, py = 0\<rparr>, obj_position = \<lparr>px = 0, py = 0\<rparr>, obj_scale = 1\<rparr>"

definition frozenSolar :: SolarRefs where
  "frozenSolar =
     \<lparr>targetRotation = \<lparr>px = 0.3, py = - 0.6\<rparr>, targetPosition = \<lparr>px = 1, py = - 1\<rparr>,
      targetScale = 2, isFrozen = True, groupRef = Some restObject, currentScale = 0.35\<rparr>"

definition frozenModel :: ModelRefs where
  "frozenModel =
     \<lparr>targetRotation = \<lparr>px = 0.3, py = - 0.6\<rparr>, targetPosition = \<lparr>px = 1, py = - 1\<rparr>,
      targetScale = 2, isFrozen = True, groupRef = Some restObject\<rparr>"

definition frozenInteractive :: InteractiveRefs where
  "frozenInteractive =
     \<lparr>targetRotation = \<lparr>px = 0.3, py = - 0.6\<rparr>, targetPosition = \<lparr>px = 1, py = - 1\<rparr>,
      targetScale = 2, isFrozen = True, groupRef = Some restObject,
      meshRef = Some restObject\<rparr>"

text \<open>The solar system at rest: every target and every rendered value at its start.\<close>

definition restingSolar :: SolarRefs where
  "restingSolar =
     \<lparr>targetRotation = \<lparr>px = 0, py = 0\<rparr>, targetPosition = \<lparr>px = 0, py = 0\<rparr>,
      targetScale = 1, isFrozen = False, groupRef = Some restObject, currentScale = 0.35\<rparr>"

text \<open>
  The specification's position update under the peace gesture: add the position delta,
  then clamp the first axis to \<open>[-3, 3]\<close> and the second to \<open>[-2, 2]\<close>.
\<close>

definition spec_movedPosition :: "GestureState \<Rightarrow> Point2 \<Rightarrow> Point2" where
  "spec_movedPosition g base =
     \<lparr>px = max (- 3) (min 3 (px base + px (position g))),
      py = max (- 2) (min 2 (py base + py (position g)))\<rparr>"

text \<open>
  What a frame with reset leaves behind: the machine is Active; each accumulator is at
  its reset value unless a gesture that writes the same accumulator is set in the same
  frame.
\<close>

definition resetOutcome :: "GestureState \<Rightarrow> 'a InteractionState_scheme \<Rightarrow> bool" where
  "resetOutcome g s =
     (\<not> isFrozen s
      \<and> (\<not> isOpenHand g \<longrightarrow> targetRotation s = \<lparr>px = 0, py = 0\<rparr>)
      \<and> (\<not> isPeace g \<longrightarrow> targetPosition s = \<lparr>px = 0, py = 0\<rparr>)
      \<and> (\<not> isZoomIn g \<and> \<not> isZoomOut g \<longrightarrow> targetScale s = 1))"

text \<open>
  The targets after one frame in terms of the gesture and the targets before it. A frame
  with fist set and reset not set ends Frozen and writes no target. Every other frame
  with peace, zoom-in or zoom-out set ends Active: reset writes first, then the gesture.
\<close>

definition spec_framePosition :: "GestureState \<Rightarrow> Point2 \<Rightarrow> Point2" where
  "spec_framePosition g p =
     (if isFist g \<and> \<not> isReset g then p
      else let base = (if isReset g then \<lparr>px = 0, py = 0\<rparr> else p)
           in if isPeace g then spec_movedPosition g base else base)"

definition spec_frameScale :: "real \<Rightarrow> real \<Rightarrow> GestureState \<Rightarrow> real \<Rightarrow> real" where
  "spec_frameScale scaleMin scaleMax g t =
     (if isFist g \<and> \<not> isReset g then t
      else let t0 = (if isReset g then 1 else t);
               t1 = (if isZoomIn g then min scaleMax (t0 + 0.02) else t0)
           in if isZoomOut g then max scaleMin (t1 - 0.02) else t1)"

definition peaceStepGesture :: GestureState where
  "peaceStepGesture = noHandGesture\<lparr>isPeace := True, position := \<lparr>px = 0.5, py = 0.5\<rparr>\<rparr>"

definition peaceFistGesture :: GestureState where
  "peaceFistGesture =
     noHandGesture\<lparr>isPeace := True, isFist := True, position := \<lparr>px = 0.5, py = 0.5\<rparr>\<rparr>"

definition zoomInFistGesture :: GestureState where
  "zoomInFistGesture = noHandGesture\<lparr>isZoomIn := True, isFist := True\<rparr>"

text \<open>A mounted car or chair in the Active state.\<close>

definition activeModel :: ModelRefs where
  "activeModel =
     \<lparr>targetRotation = \<lparr>px = 0, py = 0\<rparr>, targetPosition = \<lparr>px = 1, py = 1\<rparr>,
      targetScale = 1, isFrozen = False, groupRef = Some restObject\<rparr>"

section \<open>Properties of the classifier\<close>

subsection \<open>Distances without square roots\<close>

lemma lt_sqrt_iff: "0 \<le> c \<Longrightarrow> (c < sqrt a) = (c ^ 2 < a)"
  by (metis real_sqrt_less_iff real_sqrt_abs abs_of_nonneg)

lemma scaled_sqrt_lt_iff: "0 \<le> c \<Longrightarrow> (sqrt b * c < sqrt a) = (b * c ^ 2 < a)"
proof -
  assume c: "0 \<le> c"
  have "sqrt b * c = sqrt (b * c ^ 2)"
    using c by (simp add: real_sqrt_mult)
  then show ?thesis by simp
qed

lemma isFingerExtended_sq:
  "isFingerExtended tip pip mcp wrist =
     (((lx pip - lx wrist) ^ 2 + (ly pip - ly wrist) ^ 2) * 0.95 ^ 2
         < (lx tip - lx wrist) ^ 2 + (ly tip - ly wrist) ^ 2
      \<and> (lx mcp - lx wrist) ^ 2 + (ly mcp - ly wrist) ^ 2
         < (lx tip - lx wrist) ^ 2 + (ly tip - ly wrist) ^ 2)"
  unfolding isFingerExtended_def Let_def
  using scaled_sqrt_lt_iff [of "0.95" "(lx pip - lx wrist) ^ 2 + (ly pip - ly wrist) ^ 2"
      "(lx tip - lx wrist) ^ 2 + (ly tip - ly wrist) ^ 2"]
  by simp

lemma isThumbExtended_sq:
  "isThumbExtended thumbTip thumbIp thumbMcp wrist indexMcp =
     (0.12 ^ 2 < (lx thumbTip - lx indexMcp) ^ 2 + (ly thumbTip - ly indexMcp) ^ 2)"
  unfolding isThumbExtended_def Let_def
  using lt_sqrt_iff [of "0.12" "(lx thumbTip - lx indexMcp) ^ 2 + (ly thumbTip - ly indexMcp) ^ 2"]
  by simp

text \<open>The code's two tests are the specification's tests at the same landmarks.\<close>

lemma isFingerExtended_spec:
  "isFingerExtended (hl ! tip) (hl ! pip) (hl ! mcp) (hl ! 0) = spec_finger_extended hl tip pip mcp"
  by (simp add: isFingerExtended_def spec_finger_extended_def spec_distance_def Let_def
      mult.commute)

lemma isThumbExtended_spec:
  "isThumbExtended (hl ! 4) (hl ! 3) (hl ! 2) (hl ! 0) (hl ! 5) = spec_thumb_extended hl"
  by (simp add: isThumbExtended_def spec_thumb_extended_def spec_distance_def Let_def)

subsection \<open>The open-hand frame\<close>

lemma openPalmFrame_length: "length openPalmFrame = 21"
  by (simp add: openPalmFrame_def)

lemma openPalmFrame_index: "isFingerExtended (openPalmFrame ! 8) (openPalmFrame ! 6) (openPalmFrame ! 5) (openPalmFrame ! 0)"
  by (simp add: isFingerExtended_sq openPalmFrame_def lm_def power2_eq_square)

lemma openPalmFrame_middle: "isFingerExtended (openPalmFrame ! 12) (openPalmFrame ! 10) (openPalmFrame ! 9) (openPalmFrame ! 0)"
  by (simp add: isFingerExtended_sq openPalmFrame_def lm_def power2_eq_square)

lemma openPalmFrame_ring: "isFingerExtended (openPalmFrame ! 16) (openPalmFrame ! 14) (openPalmFrame ! 13) (openPalmFrame ! 0)"
  by (simp add: isFingerExtended_sq openPalmFrame_def lm_def power2_eq_square)

lemma openPalmFrame_pinky: "isFingerExtended (openPalmFrame ! 20) (openPalmFrame ! 18) (openPalmFrame ! 17) (openPalmFrame ! 0)"
  by (simp add: isFingerExtended_sq openPalmFrame_def lm_def power2_eq_square)

lemma openPalmFrame_thumb: "isThumbExtended (openPalmFrame ! 4) (openPalmFrame ! 3) (openPalmFrame ! 2) (openPalmFrame ! 0) (openPalmFrame ! 5)"
  by (simp add: isThumbExtended_sq openPalmFrame_def lm_def power2_eq_square)

lemma openPalmFrame_palm:
  "(lx (openPalmFrame ! 0) + lx (openPalmFrame ! 5) + lx (openPalmFrame ! 9)
      + lx (openPalmFrame ! 17)) / 4 = 0.45"
  "(ly (openPalmFrame ! 0) + ly (openPalmFrame ! 5) + ly (openPalmFrame ! 9)
      + ly (openPalmFrame ! 17)) / 4 = 0.42"
  by (simp_all add: openPalmFrame_def lm_def)

lemma calculateGesture_openPalmFrame:
  "calculateGesture openPalmFrame prev =
     Inr (\<lparr>isZoomIn = False, isZoomOut = False, isOpenHand = True, isFist = False,
            isPeace = False, isReset = False,
            palmPosition = Some \<lparr>px = 0.45, py = 0.42\<rparr>,
            rotation = (case prev of
                          Some q \<Rightarrow> \<lparr>px = (0.42 - py q) * 3, py = - ((0.45 - px q) * 3)\<rparr>
                        | None \<Rightarrow> \<lparr>px = 0, py = 0\<rparr>),
            position = \<lparr>px = 0, py = 0\<rparr>\<rparr>,
          Some \<lparr>px = 0.45, py = 0.42\<rparr>)"
  unfolding calculateGesture_def Let_def
  by (simp only: openPalmFrame_length openPalmFrame_index openPalmFrame_middle
      openPalmFrame_ring openPalmFrame_pinky openPalmFrame_thumb openPalmFrame_palm)
    (simp split: option.split)

subsection \<open>Claims about the classifier\<close>

lemma count4_ge4: "(4 \<le> length (filter id [a, b, c, d])) = (a \<and> b \<and> c \<and> d)"
  by (cases a; cases b; cases c; cases d) simp_all

lemma count4_eq0: "(length (filter id [a, b, c, d]) = 0) = (\<not> a \<and> \<not> b \<and> \<not> c \<and> \<not> d)"
  by (cases a; cases b; cases c; cases d) simp_all

lemma calculateGesture_total:
  assumes "21 \<le> length hl"
  shows "\<exists>g p. calculateGesture hl prev = Inr (g, p)"
  using assms unfolding calculateGesture_def Let_def by simp

lemma calculateGesture_short: "length hl < 21 \<Longrightarrow> calculateGesture hl prev = Inl TypeError"
  by (simp add: calculateGesture_def)

text \<open>
  The six flags in terms of the specification's five extension tests (thumb, index,
  middle, ring, pinky).
\<close>

lemma calculateGesture_flags:
  assumes "calculateGesture hl prev = Inr (g, p)"
  shows "isZoomIn g = (spec_thumb_extended hl \<and> spec_finger_extended hl 8 6 5
          \<and> \<not> spec_finger_extended hl 12 10 9 \<and> \<not> spec_finger_extended hl 16 14 13
          \<and> \<not> spec_finger_extended hl 20 18 17)"
    and "isZoomOut g = (\<not> spec_thumb_extended hl \<and> spec_finger_extended hl 8 6 5
          \<and> \<not> spec_finger_extended hl 12 10 9 \<and> \<not> spec_finger_extended hl 16 14 13
          \<and> \<not> spec_finger_extended hl 20 18 17)"
    and "isOpenHand g = (spec_thumb_extended hl \<and> spec_finger_extended hl 8 6 5
          \<and> spec_finger_extended hl 12 10 9 \<and> spec_finger_extended hl 16 14 13
          \<and> spec_finger_extended hl 20 18 17)"
    and "isFist g = (\<not> spec_thumb_extended hl \<and> \<not> spec_finger_extended hl 8 6 5
          \<and> \<not> spec_finger_extended hl 12 10 9 \<and> \<not> spec_finger_extended hl 16 14 13
          \<and> \<not> spec_finger_extended hl 20 18 17)"
    and "isPeace g = (\<not> spec_thumb_extended hl \<and> spec_finger_extended hl 8 6 5
          \<and> spec_finger_extended hl 12 10 9 \<and> \<not> spec_finger_extended hl 16 14 13
          \<and> \<not> spec_finger_extended hl 20 18 17)"
    and "isReset g = (spec_thumb_extended hl \<and> \<not> spec_finger_extended hl 8 6 5
          \<and> \<not> spec_finger_extended hl 12 10 9 \<and> \<not> spec_finger_extended hl 16 14 13
          \<and> spec_finger_extended hl 20 18 17)"
proof -
  have len: "\<not> length hl < 21"
    using assms calculateGesture_short [of hl prev] by auto
  have g: "g = fst (projr (calculateGesture hl prev))"
    using assms by simp
  show "isZoomIn g = (spec_thumb_extended hl \<and> spec_finger_extended hl 8 6 5
          \<and> \<not> spec_finger_extended hl 12 10 9 \<and> \<not> spec_finger_extended hl 16 14 13
          \<and> \<not> spec_finger_extended hl 20 18 17)"
    unfolding g calculateGesture_def Let_def isFingerExtended_spec isThumbExtended_spec
    by (simp add: len)
  show "isZoomOut g = (\<not> spec_thumb_extended hl \<and> spec_finger_extended hl 8 6 5
          \<and> \<not> spec_finger_extended hl 12 10 9 \<and> \<not> spec_finger_extended hl 16 14 13
          \<and> \<not> spec_finger_extended hl 20 18 17)"
    unfolding g calculateGesture_def Let_def isFingerExtended_spec isThumbExtended_spec
    by (simp add: len)
  show "isOpenHand g = (spec_thumb_extended hl \<and> spec_finger_extended hl 8 6 5
          \<and> spec_finger_extended hl 12 10 9 \<and> spec_finger_extended hl 16 14 13
          \<and> spec_finger_extended hl 20 18 17)"
    unfolding g calculateGesture_def Let_def isFingerExtended_spec isThumbExtended_spec
      count4_ge4
    by (simp add: len) blast
  show "isFist g = (\<not> spec_thumb_extended hl \<and> \<not> spec_finger_extended hl 8 6 5
          \<and> \<not> spec_finger_extended hl 12 10 9 \<and> \<not> spec_finger_extended hl 16 14 13
          \<and> \<not> spec_finger_extended hl 20 18 17)"
    unfolding g calculateGesture_def Let_def isFingerExtended_spec isThumbExtended_spec
      count4_eq0
    by (simp add: len) blast
  show "isPeace g = (\<not> spec_thumb_extended hl \<and> spec_finger_extended hl 8 6 5
          \<and> spec_finger_extended hl 12 10 9 \<and> \<not> spec_finger_extended hl 16 14 13
          \<and> \<not> spec_finger_extended hl 20 18 17)"
    unfolding g calculateGesture_def Let_def isFingerExtended_spec isThumbExtended_spec
    by (simp add: len) blast
  show "isReset g = (spec_thumb_extended hl \<and> \<not> spec_finger_extended hl 8 6 5
          \<and> \<not> spec_finger_extended hl 12 10 9 \<and> \<not> spec_finger_extended hl 16 14 13
          \<and> spec_finger_extended hl 20 18 17)"
    unfolding g calculateGesture_def Let_def isFingerExtended_spec isThumbExtended_spec
    by (simp add: len) blast
qed

lemma exclusive_count:
  "length (filter id
     [T \<and> I \<and> \<not> M \<and> \<not> R \<and> \<not> P, \<not> T \<and> I \<and> \<not> M \<and> \<not> R \<and> \<not> P,
      T \<and> I \<and> M \<and> R \<and> P, \<not> T \<and> \<not> I \<and> \<not> M \<and> \<not> R \<and> \<not> P,
      \<not> T \<and> I \<and> M \<and> \<not> R \<and> \<not> P, T \<and> \<not> I \<and> \<not> M \<and> \<not> R \<and> P]) \<le> 1"
  by (cases T; cases I; cases M; cases R; cases P) simp_all

text \<open>
  C6. For every hand of 21 landmarks, at most one of the six gesture flags that the
  classifier returns is set.
\<close>

theorem gesture_flags_exclusive:
  assumes "length hl = 21"
  shows "\<exists>g p. calculateGesture hl prev = Inr (g, p) \<and> activeFlags g \<le> 1"
proof -
  from assms have "21 \<le> length hl" by simp
  from calculateGesture_total [OF this, of prev] obtain g p where
    g: "calculateGesture hl prev = Inr (g, p)" by blast
  have "activeFlags g \<le> 1"
    unfolding activeFlags_def calculateGesture_flags [OF g]
    by (rule exclusive_count)
  with g show ?thesis by blast
qed

theorem gesture_flags_exclusive_witness:
  "length openPalmFrame = 21
   \<and> (\<exists>g p. calculateGesture openPalmFrame None = Inr (g, p)
         \<and> isOpenHand g \<and> activeFlags g \<le> 1)"
proof -
  have len: "length openPalmFrame = 21" by (rule openPalmFrame_length)
  from gesture_flags_exclusive [OF len, of None] obtain g p where
    "calculateGesture openPalmFrame None = Inr (g, p)" "activeFlags g \<le> 1" by blast
  moreover from this have "isOpenHand g"
    by (auto simp add: calculateGesture_openPalmFrame)
  ultimately show ?thesis using len by blast
qed

text \<open>
  C8. For every hand of 21 landmarks whose four non-thumb fingers pass the
  specification's extension test (tip farther from the wrist than 0.95 times the
  proximal joint and farther than the base joint) and whose thumb tip is farther than
  0.12 from the index base joint, the classifier reports open-hand and none of the other
  five gestures.
\<close>

theorem open_hand_classified:
  assumes "length hl = 21"
    and "spec_finger_extended hl 8 6 5"
    and "spec_finger_extended hl 12 10 9"
    and "spec_finger_extended hl 16 14 13"
    and "spec_finger_extended hl 20 18 17"
    and "spec_thumb_extended hl"
  shows "\<exists>g p. calculateGesture hl prev = Inr (g, p)
           \<and> isOpenHand g \<and> \<not> isZoomIn g \<and> \<not> isZoomOut g
           \<and> \<not> isFist g \<and> \<not> isPeace g \<and> \<not> isReset g"
proof -
  from assms(1) have "21 \<le> length hl" by simp
  from calculateGesture_total [OF this, of prev] obtain g p where
    g: "calculateGesture hl prev = Inr (g, p)" by blast
  have "isOpenHand g \<and> \<not> isZoomIn g \<and> \<not> isZoomOut g
           \<and> \<not> isFist g \<and> \<not> isPeace g \<and> \<not> isReset g"
    unfolding calculateGesture_flags [OF g] using assms(2-6) by simp
  with g show ?thesis by blast
qed

lemma openPalmFrame_spec:
  "spec_finger_extended openPalmFrame 8 6 5"
  "spec_finger_extended openPalmFrame 12 10 9"
  "spec_finger_extended openPalmFrame 16 14 13"
  "spec_finger_extended openPalmFrame 20 18 17"
  "spec_thumb_extended openPalmFrame"
  using openPalmFrame_index openPalmFrame_middle openPalmFrame_ring openPalmFrame_pinky
    openPalmFrame_thumb
  unfolding isFingerExtended_spec isThumbExtended_spec by blast+

theorem open_hand_classified_witness:
  "length openPalmFrame = 21
   \<and> spec_finger_extended openPalmFrame 8 6 5
   \<and> spec_finger_extended openPalmFrame 12 10 9
   \<and> spec_finger_extended openPalmFrame 16 14 13
   \<and> spec_finger_extended openPalmFrame 20 18 17
   \<and> spec_thumb_extended openPalmFrame
   \<and> (\<exists>g p. calculateGesture openPalmFrame (Some \<lparr>px = 0.4, py = 0.4\<rparr>) = Inr (g, p)
           \<and> isOpenHand g \<and> \<not> isZoomIn g \<and> \<not> isZoomOut g
           \<and> \<not> isFist g \<and> \<not> isPeace g \<and> \<not> isReset g)"
  using open_hand_classified [OF openPalmFrame_length openPalmFrame_spec,
      of "Some \<lparr>px = 0.4, py = 0.4\<rparr>"]
    openPalmFrame_length openPalmFrame_spec
  by blast

text \<open>
  What the classifier returns besides the flags: the palm position is the mean of four
  landmarks (wrist, index, middle and pinky base joints), it becomes the new previous
  palm position, and the deltas are computed from the previous one.
\<close>

lemma calculateGesture_palm:
  assumes "calculateGesture hl prev = Inr (g, p)"
  shows "palmPosition g =
           Some \<lparr>px = (lx (hl ! 0) + lx (hl ! 5) + lx (hl ! 9) + lx (hl ! 17)) / 4,
                 py = (ly (hl ! 0) + ly (hl ! 5) + ly (hl ! 9) + ly (hl ! 17)) / 4\<rparr>"
    and "p = palmPosition g"
proof -
  have len: "\<not> length hl < 21"
    using assms calculateGesture_short [of hl prev] by auto
  have g: "g = fst (projr (calculateGesture hl prev))"
    and p: "p = snd (projr (calculateGesture hl prev))"
    using assms by simp_all
  show "palmPosition g =
           Some \<lparr>px = (lx (hl ! 0) + lx (hl ! 5) + lx (hl ! 9) + lx (hl ! 17)) / 4,
                 py = (ly (hl ! 0) + ly (hl ! 5) + ly (hl ! 9) + ly (hl ! 17)) / 4\<rparr>"
    unfolding g calculateGesture_def Let_def by (simp add: len)
  show "p = palmPosition g"
    unfolding g p calculateGesture_def Let_def by (simp add: len)
qed

lemma calculateGesture_rotation:
  assumes "calculateGesture hl prev = Inr (g, p)" and "palmPosition g = Some palm"
  shows "rotation g =
           (case prev of
              Some q \<Rightarrow>
                if isOpenHand g
                then \<lparr>px = (py palm - py q) * 3, py = - ((px palm - px q) * 3)\<rparr>
                else \<lparr>px = 0, py = 0\<rparr>
            | None \<Rightarrow> \<lparr>px = 0, py = 0\<rparr>)"
proof -
  have len: "\<not> length hl < 21"
    using assms calculateGesture_short [of hl prev] by auto
  have g: "g = fst (projr (calculateGesture hl prev))"
    using assms by simp
  have "palm = \<lparr>px = (lx (hl ! 0) + lx (hl ! 5) + lx (hl ! 9) + lx (hl ! 17)) / 4,
                 py = (ly (hl ! 0) + ly (hl ! 5) + ly (hl ! 9) + ly (hl ! 17)) / 4\<rparr>"
    using calculateGesture_palm(1) [OF assms(1)] assms(2) by simp
  then show ?thesis
    unfolding g calculateGesture_def Let_def
    by (simp add: len split: option.split)
qed

text \<open>
  C7. With a hand of 21 landmarks, the rotation delta is
  \<open>((palm.y - prev.y) * 3, - (palm.x - prev.x) * 3)\<close> when a previous palm position
  exists and open-hand is active, and \<open>(0, 0)\<close> otherwise; a palm that moves from
  \<open>(0.4, 0.4)\<close> to \<open>(0.45, 0.42)\<close> with open-hand active gives \<open>(0.06, -0.15)\<close>.
\<close>

theorem rotation_delta:
  assumes "length hl = 21"
  shows "\<exists>g p palm. calculateGesture hl prev = Inr (g, p) \<and> palmPosition g = Some palm
           \<and> rotation g =
               (case prev of
                  Some q \<Rightarrow>
                    if isOpenHand g
                    then \<lparr>px = (py palm - py q) * 3, py = - (px palm - px q) * 3\<rparr>
                    else \<lparr>px = 0, py = 0\<rparr>
                | None \<Rightarrow> \<lparr>px = 0, py = 0\<rparr>)
           \<and> (prev = Some \<lparr>px = 0.4, py = 0.4\<rparr> \<and> palm = \<lparr>px = 0.45, py = 0.42\<rparr>
                 \<and> isOpenHand g
               \<longrightarrow> rotation g = \<lparr>px = 0.06, py = - 0.15\<rparr>)"
proof -
  from assms have "21 \<le> length hl" by simp
  from calculateGesture_total [OF this, of prev] obtain g p where
    g: "calculateGesture hl prev = Inr (g, p)" by blast
  from calculateGesture_palm(1) [OF g] obtain palm where
    palm: "palmPosition g = Some palm" by blast
  note rot = calculateGesture_rotation [OF g palm]
  have general: "rotation g =
               (case prev of
                  Some q \<Rightarrow>
                    if isOpenHand g
                    then \<lparr>px = (py palm - py q) * 3, py = - (px palm - px q) * 3\<rparr>
                    else \<lparr>px = 0, py = 0\<rparr>
                | None \<Rightarrow> \<lparr>px = 0, py = 0\<rparr>)"
    unfolding rot by (simp split: option.split)
  have scenario: "prev = Some \<lparr>px = 0.4, py = 0.4\<rparr> \<and> palm = \<lparr>px = 0.45, py = 0.42\<rparr>
                 \<and> isOpenHand g
               \<longrightarrow> rotation g = \<lparr>px = 0.06, py = - 0.15\<rparr>"
    unfolding rot by simp
  from g palm general scenario show ?thesis by blast
qed

theorem rotation_delta_witness:
  "length openPalmFrame = 21
   \<and> (\<exists>g p. calculateGesture openPalmFrame (Some \<lparr>px = 0.4, py = 0.4\<rparr>) = Inr (g, p)
         \<and> isOpenHand g \<and> palmPosition g = Some \<lparr>px = 0.45, py = 0.42\<rparr>
         \<and> rotation g = \<lparr>px = 0.06, py = - 0.15\<rparr>)"
proof -
  from rotation_delta [OF openPalmFrame_length, of "Some \<lparr>px = 0.4, py = 0.4\<rparr>"]
  obtain g p palm where
    g: "calculateGesture openPalmFrame (Some \<lparr>px = 0.4, py = 0.4\<rparr>) = Inr (g, p)"
    and palm: "palmPosition g = Some palm"
    and scenario: "Some \<lparr>px = 0.4, py = 0.4\<rparr> = Some \<lparr>px = 0.4, py = 0.4\<rparr>
        \<and> palm = \<lparr>px = 0.45, py = 0.42\<rparr> \<and> isOpenHand g
        \<longrightarrow> rotation g = \<lparr>px = 0.06, py = - 0.15\<rparr>"
    by blast
  from g have "isOpenHand g" and "palmPosition g = Some \<lparr>px = 0.45, py = 0.42\<rparr>"
    by (auto simp add: calculateGesture_openPalmFrame)
  with g palm scenario openPalmFrame_length show ?thesis by auto
qed

text \<open>
  C1. The specification takes the palm reference point as the mean of five landmarks:
  the wrist and the index, middle, ring and pinky base joints. On the open-hand frame the
  classifier returns \<open>(0.45, 0.42)\<close>, the mean of four of them (the ring base joint is
  left out), where the five-point mean is \<open>(0.46, 0.4)\<close>.
\<close>

theorem palm_position_omits_ring_base:
  "calculateGesture openPalmFrame None =
     Inr (\<lparr>isZoomIn = False, isZoomOut = False, isOpenHand = True, isFist = False,
            isPeace = False, isReset = False,
            palmPosition = Some \<lparr>px = 0.45, py = 0.42\<rparr>,
            rotation = \<lparr>px = 0, py = 0\<rparr>, position = \<lparr>px = 0, py = 0\<rparr>\<rparr>,
          Some \<lparr>px = 0.45, py = 0.42\<rparr>)
   \<and> spec_palm openPalmFrame = \<lparr>px = 0.46, py = 0.4\<rparr>"
  by (simp add: calculateGesture_openPalmFrame) (simp add: spec_palm_def openPalmFrame_def lm_def)

text \<open>
  C4. When the detector reports no hand (no landmark list, or an empty one) and the
  canvas context exists, \<open>processResults\<close> stores the gesture with all six flags false,
  no palm position and zero deltas, whatever the state was before, and leaves the
  previous palm position as it was.
\<close>

theorem no_hand_gesture:
  assumes "hasCtx" and "results = None \<or> results = Some []"
  shows "\<exists>st'. processResults hasCtx results st = Inr st'
           \<and> \<not> isZoomIn (gesture st') \<and> \<not> isZoomOut (gesture st')
           \<and> \<not> isOpenHand (gesture st') \<and> \<not> isFist (gesture st')
           \<and> \<not> isPeace (gesture st') \<and> \<not> isReset (gesture st')
           \<and> palmPosition (gesture st') = None
           \<and> rotation (gesture st') = \<lparr>px = 0, py = 0\<rparr>
           \<and> position (gesture st') = \<lparr>px = 0, py = 0\<rparr>
           \<and> prevPalmPosition st' = prevPalmPosition st"
  using assms by (auto simp add: processResults_def noHandGesture_def)

theorem no_hand_gesture_witness:
  "isFist (gesture fistHookState)
   \<and> (\<exists>st'. processResults True None fistHookState = Inr st'
         \<and> \<not> isFist (gesture st') \<and> palmPosition (gesture st') = None
         \<and> prevPalmPosition st' = Some \<lparr>px = 0.4, py = 0.4\<rparr>)
   \<and> (\<exists>st'. processResults True (Some []) fistHookState = Inr st'
         \<and> \<not> isFist (gesture st') \<and> palmPosition (gesture st') = None
         \<and> prevPalmPosition st' = Some \<lparr>px = 0.4, py = 0.4\<rparr>)"
proof -
  have "isFist (gesture fistHookState)"
    and prev: "prevPalmPosition fistHookState = Some \<lparr>px = 0.4, py = 0.4\<rparr>"
    by (simp_all add: fistHookState_def)
  moreover have "\<exists>st'. processResults True None fistHookState = Inr st'
         \<and> \<not> isFist (gesture st') \<and> palmPosition (gesture st') = None
         \<and> prevPalmPosition st' = Some \<lparr>px = 0.4, py = 0.4\<rparr>"
    using no_hand_gesture [of True None fistHookState] prev by auto
  moreover have "\<exists>st'. processResults True (Some []) fistHookState = Inr st'
         \<and> \<not> isFist (gesture st') \<and> palmPosition (gesture st') = None
         \<and> prevPalmPosition st' = Some \<lparr>px = 0.4, py = 0.4\<rparr>"
    using no_hand_gesture [of True "Some []" fistHookState] prev by auto
  ultimately show ?thesis by blast
qed

section \<open>Properties of the interaction state machine\<close>

subsection \<open>The shared block\<close>

lemma freeze_steps_isFrozen:
  "isFrozen (resetTargets g (unfreezeOnGesture g (freezeOnFist g s))) =
     (if isReset g then False
      else if isFist g then True
      else if isOpenHand g \<or> isZoomIn g \<or> isZoomOut g \<or> isPeace g then False
      else isFrozen s)"
  by (simp add: resetTargets_def unfreezeOnGesture_def freezeOnFist_def)

lemma freeze_steps_targets:
  "targetRotation (resetTargets g (unfreezeOnGesture g (freezeOnFist g s))) =
     (if isReset g then \<lparr>px = 0, py = 0\<rparr> else targetRotation s)"
  "targetPosition (resetTargets g (unfreezeOnGesture g (freezeOnFist g s))) =
     (if isReset g then \<lparr>px = 0, py = 0\<rparr> else targetPosition s)"
  "targetScale (resetTargets g (unfreezeOnGesture g (freezeOnFist g s))) =
     (if isReset g then 1 else targetScale s)"
  by (simp_all add: resetTargets_def unfreezeOnGesture_def freezeOnFist_def)

lemma update_steps_isFrozen:
  "isFrozen (zoomOut scaleMin g (zoomIn g (movePosition g (addRotation g s)))) = isFrozen s"
  by (simp add: zoomOut_def zoomIn_def movePosition_def addRotation_def)

lemma update_steps_targets:
  "targetRotation (zoomOut scaleMin g (zoomIn g (movePosition g (addRotation g s)))) =
     (if isOpenHand g
      then \<lparr>px = px (targetRotation s) + px (rotation g),
            py = py (targetRotation s) + py (rotation g)\<rparr>
      else targetRotation s)"
  "targetPosition (zoomOut scaleMin g (zoomIn g (movePosition g (addRotation g s)))) =
     (if isPeace g
      then \<lparr>px = max (- 3) (min 3 (px (targetPosition s) + px (position g))),
            py = max (- 2) (min 2 (py (targetPosition s) + py (position g)))\<rparr>
      else targetPosition s)"
  "targetScale (zoomOut scaleMin g (zoomIn g (movePosition g (addRotation g s)))) =
     spec_targetScale scaleMin 3 (g\<lparr>isReset := False\<rparr>) False (targetScale s)"
  by (simp_all add: zoomOut_def zoomIn_def movePosition_def addRotation_def
      spec_targetScale_def)

lemma steps_groupRef:
  "groupRef (resetTargets g r) = groupRef r"
  "groupRef (unfreezeOnGesture g r) = groupRef r"
  "groupRef (freezeOnFist g r) = groupRef r"
  "groupRef (addRotation g r) = groupRef r"
  "groupRef (movePosition g r) = groupRef r"
  "groupRef (zoomIn g r) = groupRef r"
  "groupRef (zoomOut scaleMin g r) = groupRef r"
  by (simp_all add: resetTargets_def unfreezeOnGesture_def freezeOnFist_def
      zoomOut_def zoomIn_def movePosition_def addRotation_def)

lemma steps_meshRef:
  "meshRef (resetTargets g r) = meshRef r"
  "meshRef (unfreezeOnGesture g r) = meshRef r"
  "meshRef (freezeOnFist g r) = meshRef r"
  "meshRef (addRotation g r) = meshRef r"
  "meshRef (movePosition g r) = meshRef r"
  "meshRef (zoomIn g r) = meshRef r"
  "meshRef (zoomOut scaleMin g r) = meshRef r"
  by (simp_all add: resetTargets_def unfreezeOnGesture_def freezeOnFist_def
      zoomOut_def zoomIn_def movePosition_def addRotation_def)

lemma steps_currentScale:
  "currentScale (resetTargets g r) = currentScale r"
  "currentScale (unfreezeOnGesture g r) = currentScale r"
  "currentScale (freezeOnFist g r) = currentScale r"
  "currentScale (addRotation g r) = currentScale r"
  "currentScale (movePosition g r) = currentScale r"
  "currentScale (zoomIn g r) = currentScale r"
  "currentScale (zoomOut scaleMin g r) = currentScale r"
  by (simp_all add: resetTargets_def unfreezeOnGesture_def freezeOnFist_def
      zoomOut_def zoomIn_def movePosition_def addRotation_def)

lemma updateTargets_isFrozen:
  "isFrozen (updateTargets scaleMin g s) =
     (if isReset g then False
      else if isFist g then True
      else if isOpenHand g \<or> isZoomIn g \<or> isZoomOut g \<or> isPeace g then False
      else isFrozen s)"
  unfolding updateTargets_def Let_def
  by (simp only: if_distrib [of isFrozen] update_steps_isFrozen if_cancel
      freeze_steps_isFrozen)

lemma updateTargets_targetScale:
  "targetScale (updateTargets scaleMin g s) =
     spec_targetScale scaleMin 3 g (isFrozen (updateTargets scaleMin g s)) (targetScale s)"
  unfolding updateTargets_isFrozen unfolding updateTargets_def Let_def
  by (simp only: if_distrib [of targetScale] update_steps_targets freeze_steps_targets
      freeze_steps_isFrozen)
    (simp add: spec_targetScale_def)

lemma updateTargets_targetPosition:
  "targetPosition (updateTargets scaleMin g s) =
     (let base = (if isReset g then \<lparr>px = 0, py = 0\<rparr> else targetPosition s)
      in if isPeace g \<and> \<not> isFrozen (updateTargets scaleMin g s)
         then \<lparr>px = max (- 3) (min 3 (px base + px (position g))),
               py = max (- 2) (min 2 (py base + py (position g)))\<rparr>
         else base)"
  unfolding updateTargets_isFrozen unfolding updateTargets_def Let_def
  by (simp only: if_distrib [of targetPosition] update_steps_targets freeze_steps_targets
      freeze_steps_isFrozen)
    simp

lemma updateTargets_targetRotation:
  "targetRotation (updateTargets scaleMin g s) =
     (let base = (if isReset g then \<lparr>px = 0, py = 0\<rparr> else targetRotation s)
      in if isOpenHand g \<and> \<not> isFrozen (updateTargets scaleMin g s)
         then \<lparr>px = px base + px (rotation g), py = py base + py (rotation g)\<rparr>
         else base)"
  unfolding updateTargets_isFrozen unfolding updateTargets_def Let_def
  by (simp only: if_distrib [of targetRotation] update_steps_targets freeze_steps_targets
      freeze_steps_isFrozen)
    simp

text \<open>The position and scale targets after the block, from the gesture and the state before.\<close>

lemma updateTargets_framePosition:
  "targetPosition (updateTargets scaleMin g s) = spec_framePosition g (targetPosition s)"
  unfolding updateTargets_targetPosition updateTargets_isFrozen
  by (simp add: spec_framePosition_def spec_movedPosition_def Let_def)

lemma updateTargets_frameScale:
  "targetScale (updateTargets scaleMin g s) = spec_frameScale scaleMin 3 g (targetScale s)"
  unfolding updateTargets_targetScale updateTargets_isFrozen
  by (simp add: spec_frameScale_def spec_targetScale_def Let_def)

lemma updateTargets_refs:
  "groupRef (updateTargets scaleMin g r) = groupRef r"
  "meshRef (updateTargets scaleMin g m) = meshRef m"
  "currentScale (updateTargets scaleMin g c) = currentScale c"
  unfolding updateTargets_def Let_def
  by (simp_all only: if_distrib [of groupRef] if_distrib [of meshRef]
      if_distrib [of currentScale] steps_groupRef steps_meshRef steps_currentScale if_cancel)

subsection \<open>The frame callbacks in terms of the shared block\<close>

lemma SolarSystem_useFrame_unmounted:
  "groupRef r = None \<Longrightarrow> SolarSystem_useFrame g r = r"
  by (simp add: SolarSystem_useFrame_def)

lemma CarModel_useFrame_unmounted:
  "groupRef r = None \<Longrightarrow> CarModel_useFrame g r = r"
  by (simp add: CarModel_useFrame_def)

lemma ChairModel_useFrame_unmounted:
  "groupRef r = None \<Longrightarrow> ChairModel_useFrame g r = r"
  by (simp add: ChairModel_useFrame_def)

lemma InteractiveModel_useFrame_unmounted:
  "groupRef r = None \<or> meshRef r = None \<Longrightarrow> InteractiveModel_useFrame g r = r"
  by (auto simp add: InteractiveModel_useFrame_def split: option.split)

lemma SolarSystem_useFrame_targets:
  assumes "groupRef r \<noteq> None"
  shows "isFrozen (SolarSystem_useFrame g r) = isFrozen (updateTargets 0.2 g r)"
    and "targetRotation (SolarSystem_useFrame g r) = targetRotation (updateTargets 0.2 g r)"
    and "targetPosition (SolarSystem_useFrame g r) = targetPosition (updateTargets 0.2 g r)"
    and "targetScale (SolarSystem_useFrame g r) = targetScale (updateTargets 0.2 g r)"
    and "groupRef (SolarSystem_useFrame g r) \<noteq> None"
  using assms by (auto simp add: SolarSystem_useFrame_def Let_def updateTargets_refs)

lemma CarModel_useFrame_targets:
  assumes "groupRef r \<noteq> None"
  shows "isFrozen (CarModel_useFrame g r) = isFrozen (updateTargets 0.3 g r)"
    and "targetRotation (CarModel_useFrame g r) = targetRotation (updateTargets 0.3 g r)"
    and "targetPosition (CarModel_useFrame g r) = targetPosition (updateTargets 0.3 g r)"
    and "targetScale (CarModel_useFrame g r) = targetScale (updateTargets 0.3 g r)"
    and "groupRef (CarModel_useFrame g r) \<noteq> None"
  using assms by (auto simp add: CarModel_useFrame_def Let_def updateTargets_refs)

lemma ChairModel_useFrame_targets:
  assumes "groupRef r \<noteq> None"
  shows "isFrozen (ChairModel_useFrame g r) = isFrozen (updateTargets 0.3 g r)"
    and "targetRotation (ChairModel_useFrame g r) = targetRotation (updateTargets 0.3 g r)"
    and "targetPosition (ChairModel_useFrame g r) = targetPosition (updateTargets 0.3 g r)"
    and "targetScale (ChairModel_useFrame g r) = targetScale (updateTargets 0.3 g r)"
    and "groupRef (ChairModel_useFrame g r) \<noteq> None"
  using assms by (auto simp add: ChairModel_useFrame_def Let_def updateTargets_refs)

lemma InteractiveModel_useFrame_targets:
  assumes "groupRef r \<noteq> None" and "meshRef r \<noteq> None"
  shows "isFrozen (InteractiveModel_useFrame g r) = isFrozen (updateTargets 0.3 g r)"
    and "targetRotation (InteractiveModel_useFrame g r) = targetRotation (updateTargets 0.3 g r)"
    and "targetPosition (InteractiveModel_useFrame g r) = targetPosition (updateTargets 0.3 g r)"
    and "targetScale (InteractiveModel_useFrame g r) = targetScale (updateTargets 0.3 g r)"
    and "groupRef (InteractiveModel_useFrame g r) \<noteq> None"
    and "meshRef (InteractiveModel_useFrame g r) \<noteq> None"
  using assms by (auto simp add: InteractiveModel_useFrame_def Let_def updateTargets_refs)

text \<open>A property kept by every frame holds after any number of frames.\<close>

lemma funpow_invariant:
  assumes "P s" and "\<And>t. P t \<Longrightarrow> P (f t)"
  shows "P ((f ^^ n) s)"
  using assms by (induction n) simp_all

subsection \<open>Concrete states and gestures\<close>

lemma frozen_states_mounted:
  "groupRef frozenSolar \<noteq> None" "groupRef frozenModel \<noteq> None"
  "groupRef frozenInteractive \<noteq> None" "meshRef frozenInteractive \<noteq> None"
  "groupRef restingSolar \<noteq> None"
  by (simp_all add: frozenSolar_def frozenModel_def frozenInteractive_def restingSolar_def)

lemma frozen_states_frozen:
  "isFrozen frozenSolar" "isFrozen frozenModel" "isFrozen frozenInteractive"
  by (simp_all add: frozenSolar_def frozenModel_def frozenInteractive_def)

lemma gesture_flags [simp]:
  "isFist fistGesture" "\<not> isOpenHand fistGesture" "\<not> isZoomIn fistGesture"
  "\<not> isZoomOut fistGesture" "\<not> isPeace fistGesture" "\<not> isReset fistGesture"
  "isPeace peaceGesture" "\<not> isFist peaceGesture" "\<not> isReset peaceGesture"
  "position peaceGesture = \<lparr>px = 10, py = 10\<rparr>"
  "isFist fistOpenGesture" "isOpenHand fistOpenGesture" "\<not> isReset fistOpenGesture"
  "isReset resetFistGesture" "isFist resetFistGesture" "\<not> isOpenHand resetFistGesture"
  "\<not> isPeace resetFistGesture" "\<not> isZoomIn resetFistGesture"
  "\<not> isZoomOut resetFistGesture"
  "isReset resetZoomInGesture" "isZoomIn resetZoomInGesture"
  "\<not> isZoomOut resetZoomInGesture" "\<not> isFist resetZoomInGesture"
  "isZoomIn zoomInGesture" "\<not> isZoomOut zoomInGesture" "\<not> isReset zoomInGesture"
  "\<not> isFist zoomInGesture"
  by (simp_all add: fistGesture_def peaceGesture_def fistOpenGesture_def
      resetFistGesture_def resetZoomInGesture_def zoomInGesture_def noHandGesture_def)

lemma step_gesture_flags [simp]:
  "isPeace peaceStepGesture" "\<not> isFist peaceStepGesture" "\<not> isReset peaceStepGesture"
  "position peaceStepGesture = \<lparr>px = 0.5, py = 0.5\<rparr>"
  "isPeace peaceFistGesture" "isFist peaceFistGesture" "\<not> isReset peaceFistGesture"
  "position peaceFistGesture = \<lparr>px = 0.5, py = 0.5\<rparr>"
  "isZoomIn zoomInFistGesture" "isFist zoomInFistGesture" "\<not> isReset zoomInFistGesture"
  "\<not> isZoomOut zoomInFistGesture"
  by (simp_all add: peaceStepGesture_def peaceFistGesture_def zoomInFistGesture_def
      noHandGesture_def)

lemma activeModel_fields:
  "groupRef activeModel \<noteq> None" "\<not> isFrozen activeModel"
  "targetPosition activeModel = \<lparr>px = 1, py = 1\<rparr>" "targetScale activeModel = 1"
  by (simp_all add: activeModel_def)

subsection \<open>Freezing and unfreezing\<close>

lemma fist_only_keeps_frozen:
  assumes "isFist g" and "\<not> isReset g" and "isFrozen s"
  shows "isFrozen (updateTargets scaleMin g s)"
  using assms by (simp add: updateTargets_isFrozen)

lemma SolarSystem_fist_frozen:
  assumes "isFist g" and "\<not> isReset g" and "isFrozen r"
  shows "isFrozen (SolarSystem_useFrame g r)"
proof (cases "groupRef r")
  case None
  then show ?thesis using assms(3) by (simp add: SolarSystem_useFrame_unmounted)
next
  case (Some grp)
  then have "groupRef r \<noteq> None" by simp
  then show ?thesis
    using assms by (simp add: SolarSystem_useFrame_targets(1) fist_only_keeps_frozen)
qed

lemma CarModel_fist_frozen:
  assumes "isFist g" and "\<not> isReset g" and "isFrozen r"
  shows "isFrozen (CarModel_useFrame g r)"
proof (cases "groupRef r")
  case None
  then show ?thesis using assms(3) by (simp add: CarModel_useFrame_unmounted)
next
  case (Some grp)
  then have "groupRef r \<noteq> None" by simp
  then show ?thesis
    using assms by (simp add: CarModel_useFrame_targets(1) fist_only_keeps_frozen)
qed

lemma ChairModel_fist_frozen:
  assumes "isFist g" and "\<not> isReset g" and "isFrozen r"
  shows "isFrozen (ChairModel_useFrame g r)"
proof (cases "groupRef r")
  case None
  then show ?thesis using assms(3) by (simp add: ChairModel_useFrame_unmounted)
next
  case (Some grp)
  then have "groupRef r \<noteq> None" by simp
  then show ?thesis
    using assms by (simp add: ChairModel_useFrame_targets(1) fist_only_keeps_frozen)
qed

lemma InteractiveModel_fist_frozen:
  assumes "isFist g" and "\<not> isReset g" and "isFrozen r"
  shows "isFrozen (InteractiveModel_useFrame g r)"
proof (cases "groupRef r = None \<or> meshRef r = None")
  case True
  then show ?thesis using assms(3) by (simp add: InteractiveModel_useFrame_unmounted)
next
  case False
  then have "groupRef r \<noteq> None" and "meshRef r \<noteq> None" by simp_all
  then show ?thesis
    using assms by (simp add: InteractiveModel_useFrame_targets(1) fist_only_keeps_frozen)
qed

text \<open>
  C2, as the code has it. In every component whose object is mounted, a frame whose
  gesture has one of open-hand, zoom-in, zoom-out, peace set and fist not set, or has
  reset set, leaves the machine Active, from any state and so from Frozen. A frame whose
  only flag is fist keeps a Frozen machine Frozen, however often it is repeated.
\<close>

theorem frozen_to_active:
  fixes solar :: SolarRefs and car chair :: ModelRefs and model :: InteractiveRefs
  assumes "groupRef solar \<noteq> None" and "groupRef car \<noteq> None" and "groupRef chair \<noteq> None"
    and "groupRef model \<noteq> None" and "meshRef model \<noteq> None"
  shows "((\<not> isFist g \<and> (isOpenHand g \<or> isZoomIn g \<or> isZoomOut g \<or> isPeace g))
            \<or> isReset g
          \<longrightarrow> \<not> isFrozen (SolarSystem_useFrame g solar)
              \<and> \<not> isFrozen (CarModel_useFrame g car)
              \<and> \<not> isFrozen (ChairModel_useFrame g chair)
              \<and> \<not> isFrozen (InteractiveModel_useFrame g model))
       \<and> (isFist g \<and> \<not> isOpenHand g \<and> \<not> isZoomIn g \<and> \<not> isZoomOut g
            \<and> \<not> isPeace g \<and> \<not> isReset g
          \<longrightarrow> (\<forall>n. (isFrozen solar \<longrightarrow> isFrozen ((SolarSystem_useFrame g ^^ n) solar))
                 \<and> (isFrozen car \<longrightarrow> isFrozen ((CarModel_useFrame g ^^ n) car))
                 \<and> (isFrozen chair \<longrightarrow> isFrozen ((ChairModel_useFrame g ^^ n) chair))
                 \<and> (isFrozen model \<longrightarrow> isFrozen ((InteractiveModel_useFrame g ^^ n) model))))"
proof (intro conjI impI allI)
  assume "(\<not> isFist g \<and> (isOpenHand g \<or> isZoomIn g \<or> isZoomOut g \<or> isPeace g))
            \<or> isReset g"
  then have active: "\<not> isFrozen (updateTargets scaleMin g s)" for scaleMin and s :: "'a InteractionState_scheme"
    by (auto simp add: updateTargets_isFrozen)
  show "\<not> isFrozen (SolarSystem_useFrame g solar)"
    using assms(1) by (simp add: SolarSystem_useFrame_targets(1) active)
  show "\<not> isFrozen (CarModel_useFrame g car)"
    using assms(2) by (simp add: CarModel_useFrame_targets(1) active)
  show "\<not> isFrozen (ChairModel_useFrame g chair)"
    using assms(3) by (simp add: ChairModel_useFrame_targets(1) active)
  show "\<not> isFrozen (InteractiveModel_useFrame g model)"
    using assms(4,5) by (simp add: InteractiveModel_useFrame_targets(1) active)
next
  fix n
  assume fist: "isFist g \<and> \<not> isOpenHand g \<and> \<not> isZoomIn g \<and> \<not> isZoomOut g
            \<and> \<not> isPeace g \<and> \<not> isReset g"
  then have f1: "isFist g" and f2: "\<not> isReset g" by simp_all
  {
    assume "isFrozen solar"
    then show "isFrozen ((SolarSystem_useFrame g ^^ n) solar)"
      by (rule funpow_invariant) (rule SolarSystem_fist_frozen [OF f1 f2])
  }
  {
    assume "isFrozen car"
    then show "isFrozen ((CarModel_useFrame g ^^ n) car)"
      by (rule funpow_invariant) (rule CarModel_fist_frozen [OF f1 f2])
  }
  {
    assume "isFrozen chair"
    then show "isFrozen ((ChairModel_useFrame g ^^ n) chair)"
      by (rule funpow_invariant) (rule ChairModel_fist_frozen [OF f1 f2])
  }
  {
    assume "isFrozen model"
    then show "isFrozen ((InteractiveModel_useFrame g ^^ n) model)"
      by (rule funpow_invariant) (rule InteractiveModel_fist_frozen [OF f1 f2])
  }
qed

theorem frozen_to_active_witness:
  "isFrozen frozenSolar \<and> isFrozen frozenModel \<and> isFrozen frozenInteractive
   \<and> \<not> isFrozen (SolarSystem_useFrame peaceGesture frozenSolar)
   \<and> \<not> isFrozen (CarModel_useFrame peaceGesture frozenModel)
   \<and> \<not> isFrozen (ChairModel_useFrame peaceGesture frozenModel)
   \<and> \<not> isFrozen (InteractiveModel_useFrame peaceGesture frozenInteractive)
   \<and> \<not> isFrozen (SolarSystem_useFrame resetFistGesture frozenSolar)
   \<and> isFrozen ((SolarSystem_useFrame fistGesture ^^ 5) frozenSolar)
   \<and> isFrozen ((CarModel_useFrame fistGesture ^^ 5) frozenModel)
   \<and> isFrozen ((ChairModel_useFrame fistGesture ^^ 5) frozenModel)
   \<and> isFrozen ((InteractiveModel_useFrame fistGesture ^^ 5) frozenInteractive)"
  using frozen_to_active [OF frozen_states_mounted(1,2,2,3,4), of peaceGesture]
    frozen_to_active [OF frozen_states_mounted(1,2,2,3,4), of resetFistGesture]
    frozen_to_active [OF frozen_states_mounted(1,2,2,3,4), of fistGesture]
    frozen_states_frozen
  by simp

text \<open>
  C2, as it is written, fails for a gesture that sets fist together with open-hand: the
  unfreeze statement is guarded by \<open>!gesture.isFist\<close>, so the frozen solar system stays
  frozen although open-hand is set.
\<close>

theorem fist_with_open_hand_stays_frozen:
  "isFrozen frozenSolar \<and> groupRef frozenSolar \<noteq> None \<and> isOpenHand fistOpenGesture
   \<and> isFrozen (SolarSystem_useFrame fistOpenGesture frozenSolar)"
  using frozen_states_mounted(1) frozen_states_frozen(1)
  by (simp add: SolarSystem_useFrame_targets(1) updateTargets_isFrozen)

subsection \<open>Reset\<close>

lemma updateTargets_reset:
  assumes "isReset g"
  shows "resetOutcome g (updateTargets scaleMin g s)"
  unfolding resetOutcome_def updateTargets_targetRotation updateTargets_targetPosition
    updateTargets_targetScale updateTargets_isFrozen
  using assms by (simp add: spec_targetScale_def)

lemma resetOutcome_cong:
  assumes "isFrozen s = isFrozen t" and "targetRotation s = targetRotation t"
    and "targetPosition s = targetPosition t" and "targetScale s = targetScale t"
  shows "resetOutcome g s = resetOutcome g t"
  using assms by (simp add: resetOutcome_def)

text \<open>
  C3, as the code has it. In every component whose object is mounted, a frame with reset
  set leaves the machine Active, also when fist is set in the same frame, and leaves
  \<open>targetRotation = (0,0)\<close> unless open-hand is set too, \<open>targetPosition = (0,0)\<close>
  unless peace is set too, and \<open>targetScale = 1\<close> unless zoom-in or zoom-out is set too.
\<close>

theorem reset_dominance:
  fixes solar :: SolarRefs and car chair :: ModelRefs and model :: InteractiveRefs
  assumes "groupRef solar \<noteq> None" and "groupRef car \<noteq> None" and "groupRef chair \<noteq> None"
    and "groupRef model \<noteq> None" and "meshRef model \<noteq> None"
    and "isReset g"
  shows "resetOutcome g (SolarSystem_useFrame g solar)
       \<and> resetOutcome g (CarModel_useFrame g car)
       \<and> resetOutcome g (ChairModel_useFrame g chair)
       \<and> resetOutcome g (InteractiveModel_useFrame g model)"
proof (intro conjI)
  show "resetOutcome g (SolarSystem_useFrame g solar)"
    using updateTargets_reset [OF assms(6), of "0.2" solar]
      resetOutcome_cong [OF SolarSystem_useFrame_targets(1-4) [OF assms(1)], where g = g]
    by simp
  show "resetOutcome g (CarModel_useFrame g car)"
    using updateTargets_reset [OF assms(6), of "0.3" car]
      resetOutcome_cong [OF CarModel_useFrame_targets(1-4) [OF assms(2)], where g = g]
    by simp
  show "resetOutcome g (ChairModel_useFrame g chair)"
    using updateTargets_reset [OF assms(6), of "0.3" chair]
      resetOutcome_cong [OF ChairModel_useFrame_targets(1-4) [OF assms(3)], where g = g]
    by simp
  show "resetOutcome g (InteractiveModel_useFrame g model)"
    using updateTargets_reset [OF assms(6), of "0.3" model]
      resetOutcome_cong [OF InteractiveModel_useFrame_targets(1-4) [OF assms(4,5)], where g = g]
    by simp
qed

theorem reset_dominance_witness:
  "isReset resetFistGesture \<and> isFist resetFistGesture \<and> isFrozen frozenSolar
   \<and> \<not> isFrozen (SolarSystem_useFrame resetFistGesture frozenSolar)
   \<and> targetRotation (SolarSystem_useFrame resetFistGesture frozenSolar) = \<lparr>px = 0, py = 0\<rparr>
   \<and> targetPosition (SolarSystem_useFrame resetFistGesture frozenSolar) = \<lparr>px = 0, py = 0\<rparr>
   \<and> targetScale (SolarSystem_useFrame resetFistGesture frozenSolar) = 1
   \<and> targetScale (CarModel_useFrame resetFistGesture frozenModel) = 1
   \<and> targetScale (ChairModel_useFrame resetFistGesture frozenModel) = 1
   \<and> targetScale (InteractiveModel_useFrame resetFistGesture frozenInteractive) = 1"
  using reset_dominance [OF frozen_states_mounted(1,2,2,3,4), of resetFistGesture]
    frozen_states_frozen
  by (simp add: resetOutcome_def)

text \<open>
  C3, as it is written, fails for a gesture that sets reset together with zoom-in: the
  target updates run after the reset in the same frame, so the scale target ends at
  \<open>1.02\<close>.
\<close>

theorem reset_then_zoom_in_scale:
  "isReset resetZoomInGesture \<and> groupRef frozenSolar \<noteq> None
   \<and> targetScale (SolarSystem_useFrame resetZoomInGesture frozenSolar) = 1.02
   \<and> targetScale (SolarSystem_useFrame resetZoomInGesture frozenSolar) \<noteq> 1"
  using frozen_states_mounted(1)
  by (simp add: SolarSystem_useFrame_targets(4) updateTargets_targetScale
      updateTargets_isFrozen spec_targetScale_def)

subsection \<open>Position range\<close>

lemma updateTargets_inPositionRange:
  assumes "inPositionRange s"
  shows "inPositionRange (updateTargets scaleMin g s)"
  using assms unfolding inPositionRange_def updateTargets_targetPosition Let_def
  by (simp split: if_split)

lemma updateTargets_peace:
  assumes "isPeace g" and "\<not> isFrozen (updateTargets scaleMin g s)"
  shows "targetPosition (updateTargets scaleMin g s) =
           spec_movedPosition g (if isReset g then \<lparr>px = 0, py = 0\<rparr> else targetPosition s)"
  using assms(2) unfolding updateTargets_targetPosition [of scaleMin g s] Let_def
  by (simp add: assms(1) spec_movedPosition_def)

lemma updateTargets_peace_far:
  assumes "isPeace g" and "\<not> isFist g" and "position g = \<lparr>px = 10, py = 10\<rparr>"
    and "inPositionRange s"
  shows "targetPosition (updateTargets scaleMin g s) = \<lparr>px = 3, py = 2\<rparr>"
proof -
  have active: "\<not> isFrozen (updateTargets scaleMin g s)"
    using assms(1,2) by (simp add: updateTargets_isFrozen)
  show ?thesis
    unfolding updateTargets_peace [OF assms(1) active] spec_movedPosition_def
    using assms(3,4) by (simp add: inPositionRange_def)
qed

lemma inPositionRange_cong:
  "targetPosition s = targetPosition t \<Longrightarrow> inPositionRange s = inPositionRange t"
  by (simp add: inPositionRange_def)

lemma SolarSystem_inPositionRange:
  "inPositionRange r \<Longrightarrow> inPositionRange (SolarSystem_useFrame g r)"
  by (cases "groupRef r = None")
    (simp_all add: SolarSystem_useFrame_unmounted updateTargets_inPositionRange
      inPositionRange_cong [OF SolarSystem_useFrame_targets(3)])

lemma CarModel_inPositionRange:
  "inPositionRange r \<Longrightarrow> inPositionRange (CarModel_useFrame g r)"
  by (cases "groupRef r = None")
    (simp_all add: CarModel_useFrame_unmounted updateTargets_inPositionRange
      inPositionRange_cong [OF CarModel_useFrame_targets(3)])

lemma ChairModel_inPositionRange:
  "inPositionRange r \<Longrightarrow> inPositionRange (ChairModel_useFrame g r)"
  by (cases "groupRef r = None")
    (simp_all add: ChairModel_useFrame_unmounted updateTargets_inPositionRange
      inPositionRange_cong [OF ChairModel_useFrame_targets(3)])

lemma InteractiveModel_inPositionRange:
  "inPositionRange r \<Longrightarrow> inPositionRange (InteractiveModel_useFrame g r)"
  by (cases "groupRef r = None \<or> meshRef r = None")
    (simp_all add: InteractiveModel_useFrame_unmounted updateTargets_inPositionRange
      inPositionRange_cong [OF InteractiveModel_useFrame_targets(3)])

lemma frozen_states_inPositionRange:
  "inPositionRange frozenSolar" "inPositionRange frozenModel" "inPositionRange frozenInteractive"
  by (simp_all add: inPositionRange_def frozenSolar_def frozenModel_def frozenInteractive_def)

text \<open>
  C9, as the code has it. In every component the position target stays within
  \<open>[-3, 3]\<close> and \<open>[-2, 2]\<close> from any start in that range, whatever the gesture. With the
  object mounted, the position target after a frame is given by the gesture and the
  target before it: a frame with fist set and reset not set leaves it as it was; in every
  other frame reset zeroes it first, and then peace adds the position delta and clamps
  each axis on its own, from a Frozen machine as from an Active one. Frames of a peace
  gesture without fist and with delta \<open>(10, 10)\<close> put the position target at exactly
  \<open>(3, 2)\<close> and keep it there.
\<close>

theorem position_clamped:
  fixes solar :: SolarRefs and car chair :: ModelRefs and model :: InteractiveRefs
  shows "((inPositionRange solar \<longrightarrow> inPositionRange (SolarSystem_useFrame g solar))
          \<and> (inPositionRange car \<longrightarrow> inPositionRange (CarModel_useFrame g car))
          \<and> (inPositionRange chair \<longrightarrow> inPositionRange (ChairModel_useFrame g chair))
          \<and> (inPositionRange model \<longrightarrow> inPositionRange (InteractiveModel_useFrame g model)))
       \<and> (groupRef solar \<noteq> None
            \<longrightarrow> targetPosition (SolarSystem_useFrame g solar) =
                  spec_framePosition g (targetPosition solar))
       \<and> (groupRef car \<noteq> None
            \<longrightarrow> targetPosition (CarModel_useFrame g car) =
                  spec_framePosition g (targetPosition car))
       \<and> (groupRef chair \<noteq> None
            \<longrightarrow> targetPosition (ChairModel_useFrame g chair) =
                  spec_framePosition g (targetPosition chair))
       \<and> (groupRef model \<noteq> None \<and> meshRef model \<noteq> None
            \<longrightarrow> targetPosition (InteractiveModel_useFrame g model) =
                  spec_framePosition g (targetPosition model))
       \<and> (isPeace g \<and> \<not> isFist g \<and> position g = \<lparr>px = 10, py = 10\<rparr> \<longrightarrow>
            (\<forall>n. 0 < n \<longrightarrow>
               (groupRef solar \<noteq> None \<and> inPositionRange solar
                  \<longrightarrow> targetPosition ((SolarSystem_useFrame g ^^ n) solar) = \<lparr>px = 3, py = 2\<rparr>)
             \<and> (groupRef car \<noteq> None \<and> inPositionRange car
                  \<longrightarrow> targetPosition ((CarModel_useFrame g ^^ n) car) = \<lparr>px = 3, py = 2\<rparr>)
             \<and> (groupRef chair \<noteq> None \<and> inPositionRange chair
                  \<longrightarrow> targetPosition ((ChairModel_useFrame g ^^ n) chair) = \<lparr>px = 3, py = 2\<rparr>)
             \<and> (groupRef model \<noteq> None \<and> meshRef model \<noteq> None \<and> inPositionRange model
                  \<longrightarrow> targetPosition ((InteractiveModel_useFrame g ^^ n) model)
                        = \<lparr>px = 3, py = 2\<rparr>)))"
proof -
  have range: "(inPositionRange solar \<longrightarrow> inPositionRange (SolarSystem_useFrame g solar))
          \<and> (inPositionRange car \<longrightarrow> inPositionRange (CarModel_useFrame g car))
          \<and> (inPositionRange chair \<longrightarrow> inPositionRange (ChairModel_useFrame g chair))
          \<and> (inPositionRange model \<longrightarrow> inPositionRange (InteractiveModel_useFrame g model))"
    by (simp add: SolarSystem_inPositionRange CarModel_inPositionRange
        ChairModel_inPositionRange InteractiveModel_inPositionRange)
  have step: "(groupRef solar \<noteq> None
            \<longrightarrow> targetPosition (SolarSystem_useFrame g solar) =
                  spec_framePosition g (targetPosition solar))
       \<and> (groupRef car \<noteq> None
            \<longrightarrow> targetPosition (CarModel_useFrame g car) =
                  spec_framePosition g (targetPosition car))
       \<and> (groupRef chair \<noteq> None
            \<longrightarrow> targetPosition (ChairModel_useFrame g chair) =
                  spec_framePosition g (targetPosition chair))
       \<and> (groupRef model \<noteq> None \<and> meshRef model \<noteq> None
            \<longrightarrow> targetPosition (InteractiveModel_useFrame g model) =
                  spec_framePosition g (targetPosition model))"
  proof (intro conjI impI)
    show "targetPosition (SolarSystem_useFrame g solar) =
            spec_framePosition g (targetPosition solar)" if m: "groupRef solar \<noteq> None"
      unfolding SolarSystem_useFrame_targets(3) [OF m] by (rule updateTargets_framePosition)
    show "targetPosition (CarModel_useFrame g car) =
            spec_framePosition g (targetPosition car)" if m: "groupRef car \<noteq> None"
      unfolding CarModel_useFrame_targets(3) [OF m] by (rule updateTargets_framePosition)
    show "targetPosition (ChairModel_useFrame g chair) =
            spec_framePosition g (targetPosition chair)" if m: "groupRef chair \<noteq> None"
      unfolding ChairModel_useFrame_targets(3) [OF m] by (rule updateTargets_framePosition)
    show "targetPosition (InteractiveModel_useFrame g model) =
            spec_framePosition g (targetPosition model)"
      if m: "groupRef model \<noteq> None \<and> meshRef model \<noteq> None"
    proof -
      from m have m1: "groupRef model \<noteq> None" and m2: "meshRef model \<noteq> None" by simp_all
      show ?thesis
        unfolding InteractiveModel_useFrame_targets(3) [OF m1 m2]
        by (rule updateTargets_framePosition)
    qed
  qed
  have far: "isPeace g \<and> \<not> isFist g \<and> position g = \<lparr>px = 10, py = 10\<rparr> \<longrightarrow>
            (\<forall>n. 0 < n \<longrightarrow>
               (groupRef solar \<noteq> None \<and> inPositionRange solar
                  \<longrightarrow> targetPosition ((SolarSystem_useFrame g ^^ n) solar) = \<lparr>px = 3, py = 2\<rparr>)
             \<and> (groupRef car \<noteq> None \<and> inPositionRange car
                  \<longrightarrow> targetPosition ((CarModel_useFrame g ^^ n) car) = \<lparr>px = 3, py = 2\<rparr>)
             \<and> (groupRef chair \<noteq> None \<and> inPositionRange chair
                  \<longrightarrow> targetPosition ((ChairModel_useFrame g ^^ n) chair) = \<lparr>px = 3, py = 2\<rparr>)
             \<and> (groupRef model \<noteq> None \<and> meshRef model \<noteq> None \<and> inPositionRange model
                  \<longrightarrow> targetPosition ((InteractiveModel_useFrame g ^^ n) model)
                        = \<lparr>px = 3, py = 2\<rparr>))"
  proof (intro impI allI conjI)
    fix n :: nat
    assume g: "isPeace g \<and> \<not> isFist g \<and> position g = \<lparr>px = 10, py = 10\<rparr>" and "0 < n"
    then obtain m where n: "n = Suc m" by (cases n) simp_all
    from g have g1: "isPeace g" and g2: "\<not> isFist g"
      and g3: "position g = \<lparr>px = 10, py = 10\<rparr>" by simp_all
    note one = updateTargets_peace_far [OF g1 g2 g3]
    {
      assume "groupRef solar \<noteq> None \<and> inPositionRange solar"
      then have "groupRef ((SolarSystem_useFrame g ^^ m) solar) \<noteq> None
          \<and> inPositionRange ((SolarSystem_useFrame g ^^ m) solar)"
        by (rule funpow_invariant)
          (simp add: SolarSystem_useFrame_targets(5) SolarSystem_inPositionRange)
      then show "targetPosition ((SolarSystem_useFrame g ^^ n) solar) = \<lparr>px = 3, py = 2\<rparr>"
        unfolding n by (simp add: SolarSystem_useFrame_targets(3) one)
    }
    {
      assume "groupRef car \<noteq> None \<and> inPositionRange car"
      then have "groupRef ((CarModel_useFrame g ^^ m) car) \<noteq> None
          \<and> inPositionRange ((CarModel_useFrame g ^^ m) car)"
        by (rule funpow_invariant)
          (simp add: CarModel_useFrame_targets(5) CarModel_inPositionRange)
      then show "targetPosition ((CarModel_useFrame g ^^ n) car) = \<lparr>px = 3, py = 2\<rparr>"
        unfolding n by (simp add: CarModel_useFrame_targets(3) one)
    }
    {
      assume "groupRef chair \<noteq> None \<and> inPositionRange chair"
      then have "groupRef ((ChairModel_useFrame g ^^ m) chair) \<noteq> None
          \<and> inPositionRange ((ChairModel_useFrame g ^^ m) chair)"
        by (rule funpow_invariant)
          (simp add: ChairModel_useFrame_targets(5) ChairModel_inPositionRange)
      then show "targetPosition ((ChairModel_useFrame g ^^ n) chair) = \<lparr>px = 3, py = 2\<rparr>"
        unfolding n by (simp add: ChairModel_useFrame_targets(3) one)
    }
    {
      assume "groupRef model \<noteq> None \<and> meshRef model \<noteq> None \<and> inPositionRange model"
      then have "groupRef ((InteractiveModel_useFrame g ^^ m) model) \<noteq> None
          \<and> meshRef ((InteractiveModel_useFrame g ^^ m) model) \<noteq> None
          \<and> inPositionRange ((InteractiveModel_useFrame g ^^ m) model)"
        by (rule funpow_invariant)
          (simp add: InteractiveModel_useFrame_targets(5,6) InteractiveModel_inPositionRange)
      then show "targetPosition ((InteractiveModel_useFrame g ^^ n) model) = \<lparr>px = 3, py = 2\<rparr>"
        unfolding n by (simp add: InteractiveModel_useFrame_targets(3) one)
    }
  qed
  show ?thesis
    by (rule conjI [OF range])
      (insert step far, elim conjE, (intro conjI; assumption))
qed

theorem position_clamped_witness:
  "inPositionRange frozenSolar \<and> inPositionRange frozenModel
   \<and> inPositionRange frozenInteractive
   \<and> isPeace peaceGesture \<and> \<not> isFist peaceGesture
   \<and> position peaceGesture = \<lparr>px = 10, py = 10\<rparr>
   \<and> groupRef frozenSolar \<noteq> None \<and> groupRef frozenModel \<noteq> None
   \<and> groupRef frozenInteractive \<noteq> None \<and> meshRef frozenInteractive \<noteq> None
   \<and> groupRef activeModel \<noteq> None
   \<and> inPositionRange (SolarSystem_useFrame peaceGesture frozenSolar)
   \<and> inPositionRange (CarModel_useFrame peaceGesture frozenModel)
   \<and> inPositionRange (ChairModel_useFrame peaceGesture frozenModel)
   \<and> inPositionRange (InteractiveModel_useFrame peaceGesture frozenInteractive)
   \<and> targetPosition ((SolarSystem_useFrame peaceGesture ^^ 1) frozenSolar) = \<lparr>px = 3, py = 2\<rparr>
   \<and> targetPosition ((SolarSystem_useFrame peaceGesture ^^ 7) frozenSolar) = \<lparr>px = 3, py = 2\<rparr>
   \<and> targetPosition ((CarModel_useFrame peaceGesture ^^ 7) frozenModel) = \<lparr>px = 3, py = 2\<rparr>
   \<and> targetPosition ((ChairModel_useFrame peaceGesture ^^ 7) frozenModel) = \<lparr>px = 3, py = 2\<rparr>
   \<and> targetPosition ((InteractiveModel_useFrame peaceGesture ^^ 7) frozenInteractive)
       = \<lparr>px = 3, py = 2\<rparr>
   \<and> targetPosition (CarModel_useFrame peaceStepGesture activeModel) = \<lparr>px = 1.5, py = 1.5\<rparr>
   \<and> targetPosition (ChairModel_useFrame peaceStepGesture frozenModel)
       = \<lparr>px = 1.5, py = - 0.5\<rparr>"
proof -
  note inst = position_clamped [of frozenSolar peaceGesture frozenModel frozenModel
      frozenInteractive]
  have seven: "(0::nat) < 7" and one: "(0::nat) < 1" by simp_all
  from inst have far: "\<And>n. 0 < n \<Longrightarrow>
      targetPosition ((SolarSystem_useFrame peaceGesture ^^ n) frozenSolar) = \<lparr>px = 3, py = 2\<rparr>
      \<and> targetPosition ((CarModel_useFrame peaceGesture ^^ n) frozenModel) = \<lparr>px = 3, py = 2\<rparr>
      \<and> targetPosition ((ChairModel_useFrame peaceGesture ^^ n) frozenModel) = \<lparr>px = 3, py = 2\<rparr>
      \<and> targetPosition ((InteractiveModel_useFrame peaceGesture ^^ n) frozenInteractive)
          = \<lparr>px = 3, py = 2\<rparr>"
    using frozen_states_mounted frozen_states_inPositionRange by simp
  from inst have range: "inPositionRange (SolarSystem_useFrame peaceGesture frozenSolar)
   \<and> inPositionRange (CarModel_useFrame peaceGesture frozenModel)
   \<and> inPositionRange (ChairModel_useFrame peaceGesture frozenModel)
   \<and> inPositionRange (InteractiveModel_useFrame peaceGesture frozenInteractive)"
    using frozen_states_inPositionRange by simp
  have start: "targetPosition frozenModel = \<lparr>px = 1, py = - 1\<rparr>"
    by (simp add: frozenModel_def)
  from position_clamped [of frozenSolar peaceStepGesture activeModel frozenModel
      frozenInteractive]
  have step: "targetPosition (CarModel_useFrame peaceStepGesture activeModel)
        = \<lparr>px = 1.5, py = 1.5\<rparr>
      \<and> targetPosition (ChairModel_useFrame peaceStepGesture frozenModel)
        = \<lparr>px = 1.5, py = - 0.5\<rparr>"
    using activeModel_fields frozen_states_mounted(2) start
    by (simp add: spec_framePosition_def spec_movedPosition_def)
  show ?thesis
    using far [OF seven] far [OF one] range step frozen_states_mounted
      frozen_states_inPositionRange activeModel_fields(1)
    by simp
qed

text \<open>
  C9, as it is written, fails for a gesture that sets peace together with fist: the car
  is Active before the frame, the fist freezes it first, and the position target stays
  at \<open>(1, 1)\<close>, where adding the delta \<open>(0.5, 0.5)\<close> and clamping gives \<open>(1.5, 1.5)\<close>.
\<close>

theorem peace_with_fist_keeps_position:
  "isPeace peaceFistGesture \<and> \<not> isFrozen activeModel \<and> groupRef activeModel \<noteq> None
   \<and> targetPosition activeModel = \<lparr>px = 1, py = 1\<rparr>
   \<and> spec_movedPosition peaceFistGesture (targetPosition activeModel) = \<lparr>px = 1.5, py = 1.5\<rparr>
   \<and> targetPosition (CarModel_useFrame peaceFistGesture activeModel) = \<lparr>px = 1, py = 1\<rparr>"
  unfolding CarModel_useFrame_targets(3) [OF activeModel_fields(1)] updateTargets_framePosition
  by (simp add: activeModel_fields spec_framePosition_def spec_movedPosition_def)

subsection \<open>Scale range\<close>

lemma spec_targetScale_range:
  assumes "scaleMin \<le> 1" and "1 \<le> scaleMax" and "scaleMin \<le> t" and "t \<le> scaleMax"
  shows "scaleMin \<le> spec_targetScale scaleMin scaleMax g frozen t
       \<and> spec_targetScale scaleMin scaleMax g frozen t \<le> scaleMax"
  using assms by (auto simp add: spec_targetScale_def Let_def min_def max_def)

lemma updateTargets_inScaleRange:
  assumes "scaleMin \<le> 1" and "inScaleRange scaleMin 3 s"
  shows "inScaleRange scaleMin 3 (updateTargets scaleMin g s)"
  using assms spec_targetScale_range [of scaleMin 3 "targetScale s" g
      "isFrozen (updateTargets scaleMin g s)"]
  by (simp add: inScaleRange_def updateTargets_targetScale)

lemma inScaleRange_cong:
  "targetScale s = targetScale t \<Longrightarrow> inScaleRange lo hi s = inScaleRange lo hi t"
  by (simp add: inScaleRange_def)

lemma SolarSystem_inScaleRange:
  "inScaleRange 0.2 3 r \<Longrightarrow> inScaleRange 0.2 3 (SolarSystem_useFrame g r)"
  by (cases "groupRef r = None")
    (simp_all add: SolarSystem_useFrame_unmounted updateTargets_inScaleRange
      inScaleRange_cong [OF SolarSystem_useFrame_targets(4)])

lemma CarModel_inScaleRange:
  "inScaleRange 0.3 3 r \<Longrightarrow> inScaleRange 0.3 3 (CarModel_useFrame g r)"
  by (cases "groupRef r = None")
    (simp_all add: CarModel_useFrame_unmounted updateTargets_inScaleRange
      inScaleRange_cong [OF CarModel_useFrame_targets(4)])

lemma ChairModel_inScaleRange:
  "inScaleRange 0.3 3 r \<Longrightarrow> inScaleRange 0.3 3 (ChairModel_useFrame g r)"
  by (cases "groupRef r = None")
    (simp_all add: ChairModel_useFrame_unmounted updateTargets_inScaleRange
      inScaleRange_cong [OF ChairModel_useFrame_targets(4)])

lemma InteractiveModel_inScaleRange:
  "inScaleRange 0.3 3 r \<Longrightarrow> inScaleRange 0.3 3 (InteractiveModel_useFrame g r)"
  by (cases "groupRef r = None \<or> meshRef r = None")
    (simp_all add: InteractiveModel_useFrame_unmounted updateTargets_inScaleRange
      inScaleRange_cong [OF InteractiveModel_useFrame_targets(4)])

lemma frozen_states_inScaleRange:
  "inScaleRange 0.2 3 frozenSolar" "inScaleRange 0.3 3 frozenModel"
  "inScaleRange 0.3 3 frozenInteractive"
  by (simp_all add: inScaleRange_def frozenSolar_def frozenModel_def frozenInteractive_def)

text \<open>
  C10, as the code has it. Every frame keeps the scale target within \<open>[0.2, 3]\<close> in
  the solar system and within \<open>[0.3, 3]\<close> in the three other components, from any
  start in the range. With the object mounted, the scale target after a frame is given by
  the gesture and the target before it: a frame with fist set and reset not set leaves it
  as it was; in every other frame reset sets it to 1 first, then zoom-in sets it to
  \<open>min 3 (t + 0.02)\<close>, then zoom-out sets it to \<open>max scaleMin (t - 0.02)\<close>, and
  nothing else changes it.
\<close>

theorem targetScale_in_range:
  fixes solar :: SolarRefs and car chair :: ModelRefs and model :: InteractiveRefs
  shows "((inScaleRange 0.2 3 solar \<longrightarrow> inScaleRange 0.2 3 (SolarSystem_useFrame g solar))
          \<and> (inScaleRange 0.3 3 car \<longrightarrow> inScaleRange 0.3 3 (CarModel_useFrame g car))
          \<and> (inScaleRange 0.3 3 chair \<longrightarrow> inScaleRange 0.3 3 (ChairModel_useFrame g chair))
          \<and> (inScaleRange 0.3 3 model
                \<longrightarrow> inScaleRange 0.3 3 (InteractiveModel_useFrame g model)))
       \<and> (groupRef solar \<noteq> None
            \<longrightarrow> targetScale (SolarSystem_useFrame g solar) =
                  spec_frameScale 0.2 3 g (targetScale solar))
       \<and> (groupRef car \<noteq> None
            \<longrightarrow> targetScale (CarModel_useFrame g car) =
                  spec_frameScale 0.3 3 g (targetScale car))
       \<and> (groupRef chair \<noteq> None
            \<longrightarrow> targetScale (ChairModel_useFrame g chair) =
                  spec_frameScale 0.3 3 g (targetScale chair))
       \<and> (groupRef model \<noteq> None \<and> meshRef model \<noteq> None
            \<longrightarrow> targetScale (InteractiveModel_useFrame g model) =
                  spec_frameScale 0.3 3 g (targetScale model))"
proof (intro conjI impI)
  show "inScaleRange 0.2 3 (SolarSystem_useFrame g solar)" if "inScaleRange 0.2 3 solar"
    using that by (rule SolarSystem_inScaleRange)
  show "inScaleRange 0.3 3 (CarModel_useFrame g car)" if "inScaleRange 0.3 3 car"
    using that by (rule CarModel_inScaleRange)
  show "inScaleRange 0.3 3 (ChairModel_useFrame g chair)" if "inScaleRange 0.3 3 chair"
    using that by (rule ChairModel_inScaleRange)
  show "inScaleRange 0.3 3 (InteractiveModel_useFrame g model)" if "inScaleRange 0.3 3 model"
    using that by (rule InteractiveModel_inScaleRange)
  show "targetScale (SolarSystem_useFrame g solar) = spec_frameScale 0.2 3 g (targetScale solar)"
    if m: "groupRef solar \<noteq> None"
    unfolding SolarSystem_useFrame_targets(4) [OF m] by (rule updateTargets_frameScale)
  show "targetScale (CarModel_useFrame g car) = spec_frameScale 0.3 3 g (targetScale car)"
    if m: "groupRef car \<noteq> None"
    unfolding CarModel_useFrame_targets(4) [OF m] by (rule updateTargets_frameScale)
  show "targetScale (ChairModel_useFrame g chair) = spec_frameScale 0.3 3 g (targetScale chair)"
    if m: "groupRef chair \<noteq> None"
    unfolding ChairModel_useFrame_targets(4) [OF m] by (rule updateTargets_frameScale)
  show "targetScale (InteractiveModel_useFrame g model) =
          spec_frameScale 0.3 3 g (targetScale model)"
    if m: "groupRef model \<noteq> None \<and> meshRef model \<noteq> None"
  proof -
    from m have m1: "groupRef model \<noteq> None" and m2: "meshRef model \<noteq> None" by simp_all
    show ?thesis
      unfolding InteractiveModel_useFrame_targets(4) [OF m1 m2]
      by (rule updateTargets_frameScale)
  qed
qed

theorem targetScale_in_range_witness:
  "inScaleRange 0.2 3 frozenSolar \<and> inScaleRange 0.3 3 frozenModel
   \<and> inScaleRange 0.3 3 frozenInteractive
   \<and> groupRef frozenSolar \<noteq> None \<and> groupRef frozenModel \<noteq> None
   \<and> groupRef frozenInteractive \<noteq> None \<and> meshRef frozenInteractive \<noteq> None
   \<and> inScaleRange 0.2 3 (SolarSystem_useFrame zoomInGesture frozenSolar)
   \<and> inScaleRange 0.3 3 (CarModel_useFrame zoomInGesture frozenModel)
   \<and> inScaleRange 0.3 3 (ChairModel_useFrame zoomInGesture frozenModel)
   \<and> inScaleRange 0.3 3 (InteractiveModel_useFrame zoomInGesture frozenInteractive)
   \<and> targetScale (SolarSystem_useFrame zoomInGesture frozenSolar) = 2.02
   \<and> targetScale (CarModel_useFrame zoomInGesture frozenModel) = 2.02
   \<and> targetScale (ChairModel_useFrame zoomInGesture frozenModel) = 2.02
   \<and> targetScale (InteractiveModel_useFrame zoomInGesture frozenInteractive) = 2.02"
proof -
  note inst = targetScale_in_range [of frozenSolar zoomInGesture frozenModel frozenModel
      frozenInteractive]
  have start: "targetScale frozenSolar = 2" "targetScale frozenModel = 2"
    "targetScale frozenInteractive = 2"
    by (simp_all add: frozenSolar_def frozenModel_def frozenInteractive_def)
  from inst show ?thesis
    using frozen_states_mounted frozen_states_inScaleRange start
    by (simp add: spec_frameScale_def)
qed

text \<open>
  C10, as it is written, fails for a gesture that sets zoom-in together with fist: the
  car is Active before the frame, the fist freezes it first, and the scale target stays
  at \<open>1\<close>, where zoom-in would set it to \<open>1.02\<close>.
\<close>

theorem zoom_in_with_fist_keeps_scale:
  "isZoomIn zoomInFistGesture \<and> \<not> isFrozen activeModel \<and> groupRef activeModel \<noteq> None
   \<and> targetScale activeModel = 1
   \<and> min 3 (targetScale activeModel + 0.02) = (1.02 :: real)
   \<and> targetScale (CarModel_useFrame zoomInFistGesture activeModel) = 1"
  unfolding CarModel_useFrame_targets(4) [OF activeModel_fields(1)] updateTargets_frameScale
  by (simp add: activeModel_fields spec_frameScale_def)

subsection \<open>Smoothing\<close>

lemma lerp_distance: "lerp old target t - target = (old - target) * (1 - t)"
  by (simp add: lerp_def algebra_simps)

lemma smoothed_lerp:
  assumes "0 \<le> t" and "t \<le> 1"
  shows "smoothed t target old (lerp old target t)"
proof -
  have "\<bar>lerp old target t - target\<bar> = \<bar>old - target\<bar> * \<bar>1 - t\<bar>"
    by (simp add: lerp_distance abs_mult)
  also have "\<dots> \<le> \<bar>old - target\<bar> * 1"
    using assms by (intro mult_left_mono) simp_all
  finally show ?thesis by (simp add: smoothed_def)
qed

lemma SolarSystem_useFrame_group:
  assumes "groupRef r = Some grp"
  shows "groupRef (SolarSystem_useFrame g r) =
     Some (grp\<lparr>obj_rotation :=
                  \<lparr>px = lerp (px (obj_rotation grp))
                          (px (targetRotation (SolarSystem_useFrame g r)) + 0.2) 0.15,
                   py = lerp (py (obj_rotation grp))
                          (py (targetRotation (SolarSystem_useFrame g r))) 0.15\<rparr>,
               obj_position :=
                  \<lparr>px = lerp (px (obj_position grp))
                          (px (targetPosition (SolarSystem_useFrame g r))) 0.15,
                   py = lerp (py (obj_position grp))
                          (py (targetPosition (SolarSystem_useFrame g r))) 0.15\<rparr>,
               obj_scale := lerp (obj_scale grp) (targetScale (SolarSystem_useFrame g r)) 0.1\<rparr>)"
proof -
  from assms have m: "groupRef r \<noteq> None" by simp
  show ?thesis
    unfolding SolarSystem_useFrame_targets(2-4) [OF m]
    by (simp add: SolarSystem_useFrame_def Let_def assms)
qed

lemma CarModel_useFrame_group:
  assumes "groupRef r = Some grp"
  shows "groupRef (CarModel_useFrame g r) =
     Some (grp\<lparr>obj_rotation :=
                  \<lparr>px = lerp (px (obj_rotation grp))
                          (px (targetRotation (CarModel_useFrame g r))) 0.15,
                   py = lerp (py (obj_rotation grp))
                          (py (targetRotation (CarModel_useFrame g r))) 0.15\<rparr>,
               obj_position :=
                  \<lparr>px = lerp (px (obj_position grp))
                          (px (targetPosition (CarModel_useFrame g r))) 0.15,
                   py = lerp (py (obj_position grp))
                          (py (targetPosition (CarModel_useFrame g r))) 0.15\<rparr>,
               obj_scale := lerp (obj_scale grp) (targetScale (CarModel_useFrame g r)) 0.1\<rparr>)"
proof -
  from assms have m: "groupRef r \<noteq> None" by simp
  show ?thesis
    unfolding CarModel_useFrame_targets(2-4) [OF m]
    by (simp add: CarModel_useFrame_def Let_def assms)
qed

lemma ChairModel_useFrame_group:
  assumes "groupRef r = Some grp"
  shows "groupRef (ChairModel_useFrame g r) =
     Some (grp\<lparr>obj_rotation :=
                  \<lparr>px = lerp (px (obj_rotation grp))
                          (px (targetRotation (ChairModel_useFrame g r))) 0.15,
                   py = lerp (py (obj_rotation grp))
                          (py (targetRotation (ChairModel_useFrame g r))) 0.15\<rparr>,
               obj_position :=
                  \<lparr>px = lerp (px (obj_position grp))
                          (px (targetPosition (ChairModel_useFrame g r))) 0.15,
                   py = lerp (py (obj_position grp))
                          (py (targetPosition (ChairModel_useFrame g r))) 0.15\<rparr>,
               obj_scale := lerp (obj_scale grp) (targetScale (ChairModel_useFrame g r)) 0.1\<rparr>)"
proof -
  from assms have m: "groupRef r \<noteq> None" by simp
  show ?thesis
    unfolding ChairModel_useFrame_targets(2-4) [OF m]
    by (simp add: ChairModel_useFrame_def Let_def assms)
qed

lemma InteractiveModel_useFrame_objects:
  assumes "groupRef r = Some grp" and "meshRef r = Some mesh"
  shows "groupRef (InteractiveModel_useFrame g r) =
     Some (grp\<lparr>obj_position :=
                  \<lparr>px = lerp (px (obj_position grp))
                          (px (targetPosition (InteractiveModel_useFrame g r))) 0.15,
                   py = lerp (py (obj_position grp))
                          (py (targetPosition (InteractiveModel_useFrame g r))) 0.15\<rparr>\<rparr>)"
    and "meshRef (InteractiveModel_useFrame g r) =
     Some (mesh\<lparr>obj_rotation :=
                  \<lparr>px = lerp (px (obj_rotation mesh))
                          (px (targetRotation (InteractiveModel_useFrame g r))) 0.15,
                   py = lerp (py (obj_rotation mesh))
                          (py (targetRotation (InteractiveModel_useFrame g r))) 0.15\<rparr>,
                obj_scale :=
                  lerp (obj_scale mesh) (targetScale (InteractiveModel_useFrame g r)) 0.1\<rparr>)"
proof -
  from assms have m: "groupRef r \<noteq> None" "meshRef r \<noteq> None" by simp_all
  show "groupRef (InteractiveModel_useFrame g r) =
     Some (grp\<lparr>obj_position :=
                  \<lparr>px = lerp (px (obj_position grp))
                          (px (targetPosition (InteractiveModel_useFrame g r))) 0.15,
                   py = lerp (py (obj_position grp))
                          (py (targetPosition (InteractiveModel_useFrame g r))) 0.15\<rparr>\<rparr>)"
    unfolding InteractiveModel_useFrame_targets(2-4) [OF m]
    by (simp add: InteractiveModel_useFrame_def Let_def assms)
  show "meshRef (InteractiveModel_useFrame g r) =
     Some (mesh\<lparr>obj_rotation :=
                  \<lparr>px = lerp (px (obj_rotation mesh))
                          (px (targetRotation (InteractiveModel_useFrame g r))) 0.15,
                   py = lerp (py (obj_rotation mesh))
                          (py (targetRotation (InteractiveModel_useFrame g r))) 0.15\<rparr>,
                obj_scale :=
                  lerp (obj_scale mesh) (targetScale (InteractiveModel_useFrame g r)) 0.1\<rparr>)"
    unfolding InteractiveModel_useFrame_targets(2-4) [OF m]
    by (simp add: InteractiveModel_useFrame_def Let_def assms)
qed

text \<open>
  C5, as the code has it. On every frame of a mounted component, Frozen or not, each
  rendered value is replaced by its interpolation toward the frame's target, with factor
  0.15 for rotation and position and 0.1 for scale, and does not move away from that
  target. The target of a rendered value is the accumulator of the same name, except for
  the first rotation component of the solar system, whose target is
  \<open>targetRotation.x + 0.2\<close>.
\<close>

theorem smoothing_step:
  fixes solar :: SolarRefs and car chair :: ModelRefs and model :: InteractiveRefs
  assumes "groupRef solar = Some sg" and "groupRef car = Some cg"
    and "groupRef chair = Some hg" and "groupRef model = Some mg"
    and "meshRef model = Some mm"
  shows "(\<exists>sg'. groupRef (SolarSystem_useFrame g solar) = Some sg'
            \<and> smoothed 0.15 (px (targetRotation (SolarSystem_useFrame g solar)) + 0.2)
                 (px (obj_rotation sg)) (px (obj_rotation sg'))
            \<and> smoothed 0.15 (py (targetRotation (SolarSystem_useFrame g solar)))
                 (py (obj_rotation sg)) (py (obj_rotation sg'))
            \<and> smoothed 0.15 (px (targetPosition (SolarSystem_useFrame g solar)))
                 (px (obj_position sg)) (px (obj_position sg'))
            \<and> smoothed 0.15 (py (targetPosition (SolarSystem_useFrame g solar)))
                 (py (obj_position sg)) (py (obj_position sg'))
            \<and> smoothed 0.1 (targetScale (SolarSystem_useFrame g solar))
                 (obj_scale sg) (obj_scale sg'))
       \<and> (\<exists>cg'. groupRef (CarModel_useFrame g car) = Some cg'
            \<and> smoothed 0.15 (px (targetRotation (CarModel_useFrame g car)))
                 (px (obj_rotation cg)) (px (obj_rotation cg'))
            \<and> smoothed 0.15 (py (targetRotation (CarModel_useFrame g car)))
                 (py (obj_rotation cg)) (py (obj_rotation cg'))
            \<and> smoothed 0.15 (px (targetPosition (CarModel_useFrame g car)))
                 (px (obj_position cg)) (px (obj_position cg'))
            \<and> smoothed 0.15 (py (targetPosition (CarModel_useFrame g car)))
                 (py (obj_position cg)) (py (obj_position cg'))
            \<and> smoothed 0.1 (targetScale (CarModel_useFrame g car))
                 (obj_scale cg) (obj_scale cg'))
       \<and> (\<exists>hg'. groupRef (ChairModel_useFrame g chair) = Some hg'
            \<and> smoothed 0.15 (px (targetRotation (ChairModel_useFrame g chair)))
                 (px (obj_rotation hg)) (px (obj_rotation hg'))
            \<and> smoothed 0.15 (py (targetRotation (ChairModel_useFrame g chair)))
                 (py (obj_rotation hg)) (py (obj_rotation hg'))
            \<and> smoothed 0.15 (px (targetPosition (ChairModel_useFrame g chair)))
                 (px (obj_position hg)) (px (obj_position hg'))
            \<and> smoothed 0.15 (py (targetPosition (ChairModel_useFrame g chair)))
                 (py (obj_position hg)) (py (obj_position hg'))
            \<and> smoothed 0.1 (targetScale (ChairModel_useFrame g chair))
                 (obj_scale hg) (obj_scale hg'))
       \<and> (\<exists>mg' mm'. groupRef (InteractiveModel_useFrame g model) = Some mg'
            \<and> meshRef (InteractiveModel_useFrame g model) = Some mm'
            \<and> smoothed 0.15 (px (targetRotation (InteractiveModel_useFrame g model)))
                 (px (obj_rotation mm)) (px (obj_rotation mm'))
            \<and> smoothed 0.15 (py (targetRotation (InteractiveModel_useFrame g model)))
                 (py (obj_rotation mm)) (py (obj_rotation mm'))
            \<and> smoothed 0.15 (px (targetPosition (InteractiveModel_useFrame g model)))
                 (px (obj_position mg)) (px (obj_position mg'))
            \<and> smoothed 0.15 (py (targetPosition (InteractiveModel_useFrame g model)))
                 (py (obj_position mg)) (py (obj_position mg'))
            \<and> smoothed 0.1 (targetScale (InteractiveModel_useFrame g model))
                 (obj_scale mm) (obj_scale mm'))"
  unfolding SolarSystem_useFrame_group [OF assms(1)] CarModel_useFrame_group [OF assms(2)]
    ChairModel_useFrame_group [OF assms(3)]
    InteractiveModel_useFrame_objects [OF assms(4,5)]
  by (simp add: smoothed_lerp)

lemma restingSolar_frame:
  "targetRotation (SolarSystem_useFrame noHandGesture restingSolar) = \<lparr>px = 0, py = 0\<rparr>"
  "groupRef (SolarSystem_useFrame noHandGesture restingSolar) =
     Some (restObject\<lparr>obj_rotation := \<lparr>px = 0.03, py = 0\<rparr>\<rparr>)"
proof -
  have g: "groupRef restingSolar = Some restObject" by (simp add: restingSolar_def)
  have t: "targetRotation (updateTargets 0.2 noHandGesture restingSolar) = \<lparr>px = 0, py = 0\<rparr>"
    "targetPosition (updateTargets 0.2 noHandGesture restingSolar) = \<lparr>px = 0, py = 0\<rparr>"
    "targetScale (updateTargets 0.2 noHandGesture restingSolar) = 1"
    by (simp_all add: updateTargets_targetRotation updateTargets_targetPosition
        updateTargets_targetScale spec_targetScale_def noHandGesture_def restingSolar_def)
  show "targetRotation (SolarSystem_useFrame noHandGesture restingSolar) = \<lparr>px = 0, py = 0\<rparr>"
    unfolding SolarSystem_useFrame_targets(2) [OF frozen_states_mounted(5)] by (rule t(1))
  show "groupRef (SolarSystem_useFrame noHandGesture restingSolar) =
     Some (restObject\<lparr>obj_rotation := \<lparr>px = 0.03, py = 0\<rparr>\<rparr>)"
    unfolding SolarSystem_useFrame_group [OF g]
      SolarSystem_useFrame_targets(2-4) [OF frozen_states_mounted(5)] t
    by (simp add: restObject_def lerp_def)
qed

theorem smoothing_step_witness:
  "isFrozen frozenSolar \<and> groupRef frozenSolar = Some restObject
   \<and> groupRef frozenModel = Some restObject \<and> groupRef frozenInteractive = Some restObject
   \<and> meshRef frozenInteractive = Some restObject
   \<and> (\<exists>sg'. groupRef (SolarSystem_useFrame fistGesture frozenSolar) = Some sg'
         \<and> smoothed 0.15 (px (targetRotation (SolarSystem_useFrame fistGesture frozenSolar)) + 0.2)
              (px (obj_rotation restObject)) (px (obj_rotation sg'))
         \<and> smoothed 0.1 (targetScale (SolarSystem_useFrame fistGesture frozenSolar))
              (obj_scale restObject) (obj_scale sg'))
   \<and> (\<exists>mg' mm'. groupRef (InteractiveModel_useFrame fistGesture frozenInteractive) = Some mg'
         \<and> meshRef (InteractiveModel_useFrame fistGesture frozenInteractive) = Some mm'
         \<and> smoothed 0.15 (px (targetRotation (InteractiveModel_useFrame fistGesture frozenInteractive)))
              (px (obj_rotation restObject)) (px (obj_rotation mm'))
         \<and> smoothed 0.15 (px (targetPosition (InteractiveModel_useFrame fistGesture frozenInteractive)))
              (px (obj_position restObject)) (px (obj_position mg')))"
proof -
  have m: "groupRef frozenSolar = Some restObject" "groupRef frozenModel = Some restObject"
    "groupRef frozenInteractive = Some restObject" "meshRef frozenInteractive = Some restObject"
    by (simp_all add: frozenSolar_def frozenModel_def frozenInteractive_def)
  from smoothing_step [OF m(1,2,2,3,4), of fistGesture] m frozen_states_frozen(1)
  show ?thesis by blast
qed

text \<open>
  C5, as it is written, fails for the solar system: with the rotation target and the
  rendered rotation both at 0, one frame without a hand moves the rendered first
  rotation component to \<open>0.03\<close>, away from the target \<open>0\<close>.
\<close>

theorem solar_rotation_leaves_target:
  "px (obj_rotation (the (groupRef restingSolar))) = 0
   \<and> px (targetRotation (SolarSystem_useFrame noHandGesture restingSolar)) = 0
   \<and> px (obj_rotation (the (groupRef (SolarSystem_useFrame noHandGesture restingSolar)))) = 0.03
   \<and> \<not> \<bar>px (obj_rotation (the (groupRef (SolarSystem_useFrame noHandGesture restingSolar))))
            - px (targetRotation (SolarSystem_useFrame noHandGesture restingSolar))\<bar>
        \<le> \<bar>px (obj_rotation (the (groupRef restingSolar)))
            - px (targetRotation (SolarSystem_useFrame noHandGesture restingSolar))\<bar>"
  unfolding restingSolar_frame
  by (simp add: restingSolar_def restObject_def)

end
